theory Spec2Isabelle
  imports Complex_Main "HOL-Library.Char_ord" "HOL-Library.List_Lexorder"
begin

section \<open>PublicTunnel: a relay of public HTTP requests over a control connection\<close>

text \<open>
  The development embeds the Go packages \<^verbatim>\<open>internal/protocol\<close>,
  \<^verbatim>\<open>internal/server\<close> and \<^verbatim>\<open>internal/client\<close>. Shared maps guarded by a
  lock become fields of a state record that every operation takes and returns; a region
  executed under one lock is one function. Results of calls into the network, the clock and
  the random source are arguments of the operation that makes the call.
\<close>

subsection \<open>Durations and the liveness constants\<close>

text \<open>
  A \<^verbatim>\<open>time.Duration\<close> counts nanoseconds. The three constants of both packages are
  constant expressions, which Go evaluates exactly.
\<close>

type_synonym Duration = int

definition Second :: Duration where
  "Second = 1000000000"

definition server_pongWait :: Duration where
  "server_pongWait = 60 * Second"

definition server_pingPeriod :: Duration where
  "server_pingPeriod = (server_pongWait * 9) div 10"

definition server_writeWait :: Duration where
  "server_writeWait = 10 * Second"

definition client_pongWait :: Duration where
  "client_pongWait = 60 * Second"

definition client_pingPeriod :: Duration where
  "client_pingPeriod = (client_pongWait * 9) div 10"

definition client_writeWait :: Duration where
  "client_writeWait = 10 * Second"

subsection \<open>Strings\<close>

text \<open>
  Go strings are byte sequences. \<^verbatim>\<open>strings.Index\<close> returns the position of the
  first occurrence of the separator, or \<open>-1\<close>; \<^verbatim>\<open>strings.HasSuffix\<close> and
  \<^verbatim>\<open>strings.TrimSuffix\<close> compare and cut the tail.
\<close>

fun strings_Index :: "string \<Rightarrow> string \<Rightarrow> int" where
  "strings_Index [] sep = (if sep = [] then 0 else - 1)"
| "strings_Index (c # s) sep =
     (if take (length sep) (c # s) = sep then 0
      else (let i = strings_Index s sep in if i = - 1 then - 1 else i + 1))"

definition strings_HasSuffix :: "string \<Rightarrow> string \<Rightarrow> bool" where
  "strings_HasSuffix s suffix =
     (length suffix \<le> length s \<and> drop (length s - length suffix) s = suffix)"

definition strings_TrimSuffix :: "string \<Rightarrow> string \<Rightarrow> string" where
  "strings_TrimSuffix s suffix =
     (if strings_HasSuffix s suffix then take (length s - length suffix) s else s)"

subsection \<open>JSON values and \<^verbatim>\<open>encoding/json\<close>\<close>

text \<open>
  A message read from the control connection is a byte sequence that either is no JSON
  text or denotes a JSON value. Object members are kept in the order of the text. A number
  whose literal exceeds the range of \<^verbatim>\<open>float64\<close> is \<open>JNumber None\<close>.
\<close>

datatype json =
    JNull
  | JBool bool
  | JNumber "rat option"
  | JString string
  | JArray "json list"
  | JObject "(string \<times> json) list"

datatype raw_message = NotJSON | JSON json

datatype json_error = SyntaxError | UnmarshalTypeError

text \<open>
  Decoding into \<^verbatim>\<open>interface{}\<close> fails on a number outside \<^verbatim>\<open>float64\<close>.
\<close>

fun representable :: "json \<Rightarrow> bool"
  and representable_list :: "json list \<Rightarrow> bool"
  and representable_members :: "(string \<times> json) list \<Rightarrow> bool" where
  "representable JNull = True"
| "representable (JBool b) = True"
| "representable (JNumber n) = (n \<noteq> None)"
| "representable (JString s) = True"
| "representable (JArray xs) = representable_list xs"
| "representable (JObject kvs) = representable_members kvs"
| "representable_list [] = True"
| "representable_list (x # xs) = (representable x \<and> representable_list xs)"
| "representable_members [] = True"
| "representable_members (kv # kvs) = (representable (snd kv) \<and> representable_members kvs)"

text \<open>
  A member of an object fills the struct field whose name equals the member's key, or
  equals it after case folding. Folding maps the ASCII letters to upper case, and the long s
  (U+017F, bytes C5 BF) and the Kelvin sign (U+212A, bytes E2 84 AA) to \<open>S\<close> and \<open>K\<close>.
\<close>

definition upper_ascii :: "char \<Rightarrow> char" where
  "upper_ascii c =
     (if CHR ''a'' \<le> c \<and> c \<le> CHR ''z'' then char_of (of_char c - (32::nat)) else c)"

fun foldName :: "string \<Rightarrow> string" where
  "foldName (a # b # c # s) =
     (if a = CHR 0xE2 \<and> b = CHR 0x84 \<and> c = CHR 0xAA then CHR ''K'' # foldName s
      else if a = CHR 0xC5 \<and> b = CHR 0xBF then CHR ''S'' # foldName (c # s)
      else upper_ascii a # foldName (b # c # s))"
| "foldName [a, b] =
     (if a = CHR 0xC5 \<and> b = CHR 0xBF then [CHR ''S''] else [upper_ascii a, upper_ascii b])"
| "foldName [a] = [upper_ascii a]"
| "foldName [] = []"

definition names_field :: "string \<Rightarrow> string \<Rightarrow> bool" where
  "names_field key field = (key = field \<or> foldName key = foldName field)"

text \<open>The first error of a decoding run is the one returned.\<close>

definition saveError :: "json_error option \<Rightarrow> json_error \<Rightarrow> json_error option" where
  "saveError saved e = (case saved of None \<Rightarrow> Some e | Some e0 \<Rightarrow> Some e0)"

text \<open>
  A string field takes a JSON string, is left as it is by \<open>null\<close>, and is left as it is
  with an error recorded by any other value.
\<close>

definition string_field :: "json \<Rightarrow> json_error option \<times> string \<Rightarrow> json_error option \<times> string" where
  "string_field v acc =
     (case v of
        JString s \<Rightarrow> (fst acc, s)
      | JNull \<Rightarrow> acc
      | _ \<Rightarrow> (saveError (fst acc) UnmarshalTypeError, snd acc))"

text \<open>
  \<^verbatim>\<open>json.Marshal\<close> of a value held in an \<^verbatim>\<open>interface{}\<close> writes an object from a
  Go map: one member for each key, with the value of the key's last occurrence, the keys in
  ascending byte order.
\<close>

fun last_per_key :: "(string \<times> 'a) list \<Rightarrow> (string \<times> 'a) list" where
  "last_per_key [] = []"
| "last_per_key (kv # kvs) =
     (if map_of kvs (fst kv) = None then kv # last_per_key kvs else last_per_key kvs)"

definition marshal_members :: "(string \<times> 'a) list \<Rightarrow> (string \<times> 'a) list" where
  "marshal_members kvs = sort_key fst (last_per_key kvs)"

subsection \<open>The protocol package\<close>

type_synonym MessageType = string

definition TypeRegister :: MessageType where
  "TypeRegister = ''REGISTER''"

definition TypeRegisterResp :: MessageType where
  "TypeRegisterResp = ''REGISTER_RESP''"

definition TypeHttpRequest :: MessageType where
  "TypeHttpRequest = ''HTTP_REQUEST''"

definition TypeHttpResponse :: MessageType where
  "TypeHttpResponse = ''HTTP_RESPONSE''"

definition TypeError :: MessageType where
  "TypeError = ''ERROR''"

text \<open>
  The payload of a \<^verbatim>\<open>ControlMessage\<close> is an \<^verbatim>\<open>interface{}\<close>: a JSON value in a
  message that was decoded, one of the payload structs in a message that is written.
\<close>

record 'p ControlMessage =
  Type :: MessageType
  Payload :: 'p

text \<open>
  A \<^verbatim>\<open>map[string][]string\<close> is listed in the order in which \<^verbatim>\<open>range\<close> visits
  its entries.
\<close>

type_synonym header_map = "(string \<times> string list) list"

type_synonym bytes = string

record RegisterPayload =
  reg_Subdomain :: string

record RegisterRespPayload =
  ack_Subdomain :: string
  ack_URL :: string
  ack_Error :: string

record HttpRequestPayload =
  req_ID :: string
  req_Method :: string
  req_Path :: string
  req_Headers :: header_map
  req_Body :: bytes

record HttpResponsePayload =
  resp_ID :: string
  resp_Status :: int
  resp_Headers :: header_map
  resp_Body :: bytes

record ErrorPayload =
  err_Message :: string

datatype payload =
    Register RegisterPayload
  | RegisterResp RegisterRespPayload
  | HttpRequest HttpRequestPayload
  | HttpResponse HttpResponsePayload
  | Error ErrorPayload

text \<open>
  \<^verbatim>\<open>json.Unmarshal(msg, &ctrl)\<close>: \<open>null\<close> leaves the struct at its zero value, an
  object fills the two fields member by member, anything else is a type error. The members
  of the object are all visited, also after an error.
\<close>

definition ctrl_member ::
  "json_error option \<times> json ControlMessage \<Rightarrow> string \<times> json
    \<Rightarrow> json_error option \<times> json ControlMessage" where
  "ctrl_member acc kv =
     (if names_field (fst kv) ''type'' then
        (let r = string_field (snd kv) (fst acc, Type (snd acc))
         in (fst r, (snd acc)\<lparr>Type := snd r\<rparr>))
      else if names_field (fst kv) ''payload'' then
        (if representable (snd kv) then (fst acc, (snd acc)\<lparr>Payload := snd kv\<rparr>)
         else (saveError (fst acc) UnmarshalTypeError, snd acc))
      else acc)"

definition unmarshal_ControlMessage :: "raw_message \<Rightarrow> json_error option \<times> json ControlMessage" where
  "unmarshal_ControlMessage msg =
     (case msg of
        NotJSON \<Rightarrow> (Some SyntaxError, \<lparr>Type = [], Payload = JNull\<rparr>)
      | JSON JNull \<Rightarrow> (None, \<lparr>Type = [], Payload = JNull\<rparr>)
      | JSON (JObject kvs) \<Rightarrow> foldl ctrl_member (None, \<lparr>Type = [], Payload = JNull\<rparr>) kvs
      | JSON _ \<Rightarrow> (Some UnmarshalTypeError, \<lparr>Type = [], Payload = JNull\<rparr>))"

text \<open>
  \<^verbatim>\<open>json.Marshal(ctrl.Payload)\<close> followed by \<^verbatim>\<open>json.Unmarshal(data, &reg)\<close>: the
  payload is written again and read into the struct. The result holds the struct as far as
  it was filled and the error, which the callers drop.
\<close>

definition reg_member ::
  "json_error option \<times> RegisterPayload \<Rightarrow> string \<times> json \<Rightarrow> json_error option \<times> RegisterPayload" where
  "reg_member acc kv =
     (if names_field (fst kv) ''subdomain'' then
        (let r = string_field (snd kv) (fst acc, reg_Subdomain (snd acc))
         in (fst r, (snd acc)\<lparr>reg_Subdomain := snd r\<rparr>))
      else acc)"

definition unmarshal_RegisterPayload :: "json \<Rightarrow> json_error option \<times> RegisterPayload" where
  "unmarshal_RegisterPayload p =
     (case p of
        JNull \<Rightarrow> (None, \<lparr>reg_Subdomain = []\<rparr>)
      | JObject kvs \<Rightarrow> foldl reg_member (None, \<lparr>reg_Subdomain = []\<rparr>) (marshal_members kvs)
      | _ \<Rightarrow> (Some UnmarshalTypeError, \<lparr>reg_Subdomain = []\<rparr>))"

subsection \<open>HTTP requests and replies\<close>

text \<open>
  A body is read with \<^verbatim>\<open>io.ReadAll\<close>, which returns the bytes read and the error
  that ended the reading, if it was not the end of the stream.
\<close>

datatype body_stream = Stream bytes "string option"

fun io_ReadAll :: "body_stream \<Rightarrow> bytes \<times> string option" where
  "io_ReadAll (Stream b e) = (b, e)"

record Request =
  Host :: string
  URL_Path :: string
  Method :: string
  Header :: header_map
  Body :: body_stream
  TLS :: bool

definition Header_Get :: "header_map \<Rightarrow> string \<Rightarrow> string" where
  "Header_Get h key = (case map_of h key of Some (v # vs) \<Rightarrow> v | _ \<Rightarrow> [])"

text \<open>
  A handler answers through its \<^verbatim>\<open>http.ResponseWriter\<close>. The reply of a handler is
  the sequence of its calls: \<^verbatim>\<open>w.Header().Add\<close>, \<^verbatim>\<open>w.WriteHeader\<close>,
  \<^verbatim>\<open>w.Write\<close> and \<^verbatim>\<open>http.Error(w, text, code)\<close>, which answers with status
  \<open>code\<close>.
\<close>

datatype rw_call =
    HeaderAdd string string
  | WriteHeader int
  | Write bytes
  | http_Error string int

definition http_StatusOK :: int where
  "http_StatusOK = 200"

definition http_StatusNotFound :: int where
  "http_StatusNotFound = 404"

definition http_StatusInternalServerError :: int where
  "http_StatusInternalServerError = 500"

definition http_StatusBadGateway :: int where
  "http_StatusBadGateway = 502"

definition http_StatusGatewayTimeout :: int where
  "http_StatusGatewayTimeout = 504"

subsection \<open>The server: state\<close>

text \<open>
  A \<^verbatim>\<open>*ClientConn\<close> and a channel are identified by a number. The state of the server
  is the struct \<^verbatim>\<open>TunnelServer\<close> together with the buffers of the channels and the
  messages handed to \<^verbatim>\<open>WriteJSON\<close> on client connections, oldest first.
\<close>

type_synonym conn = nat

type_synonym chan = nat

record TunnelServer =
  Domain' :: string
  TunnelDomain :: string
  Port :: int
  clients :: "string \<rightharpoonup> conn"
  pendingReqs :: "string \<rightharpoonup> chan"

record server_state = TunnelServer +
  chans :: "chan \<Rightarrow> HttpResponsePayload list"
  writes :: "(conn \<times> payload ControlMessage) list"

definition NewTunnelServer :: "string \<Rightarrow> string \<Rightarrow> int \<Rightarrow> server_state" where
  "NewTunnelServer domain tunnelDomain port =
     \<lparr>Domain' = domain,
      TunnelDomain = (if tunnelDomain = [] then domain else tunnelDomain),
      Port = port,
      clients = Map.empty,
      pendingReqs = Map.empty,
      chans = (\<lambda>ch. []),
      writes = []\<rparr>"

text \<open>
  The response channel of a request is made with capacity 1. A send appends to the buffer
  when there is room; otherwise the sending goroutine is parked until a receive makes room.
\<close>

definition respCh_capacity :: nat where
  "respCh_capacity = 1"

datatype send_result = Sent | Parked

definition chan_send ::
  "server_state \<Rightarrow> chan \<Rightarrow> HttpResponsePayload \<Rightarrow> send_result \<times> server_state" where
  "chan_send s ch v =
     (if length (chans s ch) < respCh_capacity
      then (Sent, s\<lparr>chans := (chans s)(ch := chans s ch @ [v])\<rparr>)
      else (Parked, s))"

text \<open>
  \<^verbatim>\<open>ClientConn.WriteJSON\<close>, lines 42 to 47: the message is handed to the
  connection under the write lock of the client. The error that it returns is given with
  the call.
\<close>

definition WriteJSON :: "server_state \<Rightarrow> conn \<Rightarrow> payload ControlMessage \<Rightarrow> server_state" where
  "WriteJSON s c v = s\<lparr>writes := writes s @ [(c, v)]\<rparr>"

subsection \<open>The server: \<^verbatim>\<open>handleWebSocket\<close>\<close>

datatype read_result = ReadError | Message raw_message

text \<open>
  What \<^verbatim>\<open>handleWebSocket\<close> receives from outside: the result of the upgrade, the
  first message, the texts of the two fresh UUIDs that it may draw (each the 36 characters
  of \<^verbatim>\<open>uuid.New().String()\<close>), and the results of the later reads.
\<close>

record ws_env =
  upgrade :: "conn option"
  first_read :: read_result
  name_uuid :: string
  suffix_uuid :: string
  reads :: "read_result list"

text \<open>Lines 133 to 136: the requested name, or the first eight characters of a UUID.\<close>

definition requested_subdomain :: "RegisterPayload \<Rightarrow> string \<Rightarrow> string" where
  "requested_subdomain reg u =
     (if reg_Subdomain reg = [] then take 8 u else reg_Subdomain reg)"

text \<open>
  Lines 140 to 146, under \<^verbatim>\<open>clientsMu\<close>: a name that is taken gets a dash and the
  first four characters of a UUID; the resulting name is bound to the client.
\<close>

definition bind_client ::
  "server_state \<Rightarrow> string \<Rightarrow> conn \<Rightarrow> string \<Rightarrow> string \<times> server_state" where
  "bind_client s subdomain client u =
     (let subdomain = (if clients s subdomain \<noteq> None
                       then subdomain @ ''-'' @ take 4 u else subdomain)
      in (subdomain, s\<lparr>clients := (clients s)(subdomain \<mapsto> client)\<rparr>))"

definition public_scheme :: "Request \<Rightarrow> string" where
  "public_scheme r =
     (if TLS r \<or> Header_Get (Header r) ''X-Forwarded-Proto'' = ''https''
      then ''https'' else ''http'')"

text \<open>
  Lines 110 to 162: the handshake. It returns the name and the connection of the client
  that it registered, or \<open>None\<close> when it returned before registering.
\<close>

definition handleWebSocket_handshake ::
  "server_state \<Rightarrow> Request \<Rightarrow> ws_env \<Rightarrow> (string \<times> conn) option \<times> server_state" where
  "handleWebSocket_handshake s r e =
     (case upgrade e of
        None \<Rightarrow> (None, s)
      | Some conn \<Rightarrow>
         (case first_read e of
            ReadError \<Rightarrow> (None, s)
          | Message msg \<Rightarrow>
             (let d = unmarshal_ControlMessage msg; ctrl = snd d in
              if fst d \<noteq> None \<or> Type ctrl \<noteq> TypeRegister then (None, s)
              else
                (let reg = snd (unmarshal_RegisterPayload (Payload ctrl));
                     subdomain = requested_subdomain reg (name_uuid e);
                     b = bind_client s subdomain conn (suffix_uuid e);
                     subdomain = fst b;
                     resp = \<lparr>Type = TypeRegisterResp,
                             Payload = RegisterResp
                               \<lparr>ack_Subdomain = subdomain,
                                ack_URL = public_scheme r @ ''://'' @ subdomain @ ''.''
                                          @ TunnelDomain s,
                                ack_Error = []\<rparr>\<rparr>
                 in (Some (subdomain, conn), WriteJSON (snd b) conn resp)))))"

text \<open>
  The read loop of lines 188 to 216 is in one of three states after a read: reading on,
  parked in the send of line 213, or left through \<^verbatim>\<open>break\<close>.
\<close>

datatype loop_state = Reading | Sending chan HttpResponsePayload | Closed

text \<open>Lines 208 to 214: the lookup under \<^verbatim>\<open>reqsMu\<close> and the send.\<close>

definition deliver :: "server_state \<Rightarrow> HttpResponsePayload \<Rightarrow> loop_state \<times> server_state" where
  "deliver s httpResp =
     (case pendingReqs s (resp_ID httpResp) of
        None \<Rightarrow> (Reading, s)
      | Some ch \<Rightarrow>
         (case fst (chan_send s ch httpResp) of
            Sent \<Rightarrow> (Reading, snd (chan_send s ch httpResp))
          | Parked \<Rightarrow> (Sending ch httpResp, s)))"

text \<open>
  One iteration of the loop. The first argument stands for the decoding of the payload
  into an \<^verbatim>\<open>HttpResponsePayload\<close>, whose error the loop drops.
\<close>

definition handleWebSocket_read ::
  "(json \<Rightarrow> HttpResponsePayload) \<Rightarrow> server_state \<Rightarrow> string \<Rightarrow> read_result
    \<Rightarrow> loop_state \<times> server_state" where
  "handleWebSocket_read dec s subdomain rd =
     (case rd of
        ReadError \<Rightarrow> (Closed, s\<lparr>clients := (clients s)(subdomain := None)\<rparr>)
      | Message msg \<Rightarrow>
         (let d = unmarshal_ControlMessage msg; respMsg = snd d in
          if fst d \<noteq> None then (Reading, s)
          else if Type respMsg = TypeHttpResponse then deliver s (dec (Payload respMsg))
          else (Reading, s)))"

fun handleWebSocket_loop ::
  "(json \<Rightarrow> HttpResponsePayload) \<Rightarrow> server_state \<Rightarrow> string \<Rightarrow> read_result list
    \<Rightarrow> loop_state \<times> server_state" where
  "handleWebSocket_loop dec s subdomain [] = (Reading, s)"
| "handleWebSocket_loop dec s subdomain (rd # rds) =
     (case fst (handleWebSocket_read dec s subdomain rd) of
        Reading \<Rightarrow>
          handleWebSocket_loop dec (snd (handleWebSocket_read dec s subdomain rd)) subdomain rds
      | st \<Rightarrow> handleWebSocket_read dec s subdomain rd)"

text \<open>
  The whole of \<^verbatim>\<open>handleWebSocket\<close> on the reads that it is given: the state of its
  loop when the reads are used up, and the state of the server then.
\<close>

definition handleWebSocket ::
  "(json \<Rightarrow> HttpResponsePayload) \<Rightarrow> server_state \<Rightarrow> Request \<Rightarrow> ws_env
    \<Rightarrow> loop_state \<times> server_state" where
  "handleWebSocket dec s r e =
     (case fst (handleWebSocket_handshake s r e) of
        None \<Rightarrow> (Closed, snd (handleWebSocket_handshake s r e))
      | Some registered \<Rightarrow>
          handleWebSocket_loop dec (snd (handleWebSocket_handshake s r e))
            (fst registered) (reads e))"

subsection \<open>The server: \<^verbatim>\<open>proxyToClient\<close>\<close>

text \<open>
  What \<^verbatim>\<open>proxyToClient\<close> receives from outside: the text of the fresh UUID of line
  229, the channel made in line 245, the error of \<^verbatim>\<open>WriteJSON\<close> in line 256, and the
  messages that the read loop of the client's session handles after the write and before
  the timer of line 271 fires.
\<close>

record proxy_env =
  request_uuid :: string
  response_chan :: chan
  write_err :: "string option"
  inbound :: "raw_message list"

datatype select_result = Received HttpResponsePayload | TimedOut Duration

record outcome =
  reply :: "rw_call list"
  waited :: "select_result option"
  session :: "loop_state option"
  state :: server_state

text \<open>
  Lines 245 to 248: the channel is made, with an empty buffer, and entered in the table
  under \<^verbatim>\<open>reqsMu\<close>.
\<close>

definition open_slot :: "server_state \<Rightarrow> string \<Rightarrow> chan \<Rightarrow> server_state" where
  "open_slot s reqID respCh =
     s\<lparr>pendingReqs := (pendingReqs s)(reqID \<mapsto> respCh),
       chans := (chans s)(respCh := [])\<rparr>"

text \<open>Lines 250 to 254: the deferred removal of the slot.\<close>

definition release :: "string \<Rightarrow> outcome \<Rightarrow> outcome" where
  "release reqID out =
     out\<lparr>state := (state out)\<lparr>pendingReqs := (pendingReqs (state out))(reqID := None)\<rparr>\<rparr>"

text \<open>Lines 264 to 270: the response of the client, written to the caller.\<close>

definition replay :: "HttpResponsePayload \<Rightarrow> rw_call list" where
  "replay resp =
     concat (map (\<lambda>kvv. map (HeaderAdd (fst kvv)) (snd kvv)) (resp_Headers resp))
     @ [WriteHeader (resp_Status resp), Write (resp_Body resp)]"

text \<open>Lines 229 to 243: the message that carries the request to the client.\<close>

definition request_message :: "Request \<Rightarrow> string \<Rightarrow> payload ControlMessage" where
  "request_message r reqID =
     \<lparr>Type = TypeHttpRequest,
      Payload = HttpRequest
        \<lparr>req_ID = reqID, req_Method = Method r, req_Path = URL_Path r,
         req_Headers = Header r, req_Body = fst (io_ReadAll (Body r))\<rparr>\<rparr>"

text \<open>
  Lines 262 to 273: the \<^verbatim>\<open>select\<close>. A response in the buffer of the channel is
  received and written to the caller; with an empty buffer the timer of 30 seconds fires.
\<close>

definition await_response :: "server_state \<Rightarrow> chan \<Rightarrow> outcome" where
  "await_response s respCh =
     (case chans s respCh of
        resp # rest \<Rightarrow>
          \<lparr>reply = replay resp, waited = Some (Received resp), session = None,
           state = s\<lparr>chans := (chans s)(respCh := rest)\<rparr>\<rparr>
      | [] \<Rightarrow>
          \<lparr>reply = [http_Error ''Gateway timeout'' http_StatusGatewayTimeout],
           waited = Some (TimedOut (30 * Second)), session = None, state = s\<rparr>)"

definition proxyToClient ::
  "(json \<Rightarrow> HttpResponsePayload) \<Rightarrow> server_state \<Rightarrow> string \<Rightarrow> Request \<Rightarrow> proxy_env
    \<Rightarrow> outcome" where
  "proxyToClient dec s subdomain r e =
     (case clients s subdomain of
        None \<Rightarrow>
          \<lparr>reply = [http_Error ''Tunnel not found'' http_StatusNotFound],
           waited = None, session = None, state = s\<rparr>
      | Some conn \<Rightarrow>
         (let reqID = request_uuid e;
              ctrlMsg = request_message r reqID;
              respCh = response_chan e;
              s1 = open_slot s reqID respCh;
              s2 = WriteJSON s1 conn ctrlMsg
          in release reqID
            (case write_err e of
               Some err \<Rightarrow>
                 \<lparr>reply = [http_Error ''Failed to send request to client''
                             http_StatusInternalServerError],
                  waited = None, session = None, state = s2\<rparr>
             | None \<Rightarrow>
                 await_response
                   (snd (handleWebSocket_loop dec s2 subdomain (map Message (inbound e))))
                   respCh)))"

subsection \<open>The server: \<^verbatim>\<open>handleRequest\<close>\<close>

text \<open>Lines 83 to 87: the host without its port.\<close>

definition strip_port :: "string \<Rightarrow> string" where
  "strip_port host =
     (let idx = strings_Index host '':'' in if idx \<noteq> - 1 then take (nat idx) host else host)"

definition server_handleRequest ::
  "(json \<Rightarrow> HttpResponsePayload) \<Rightarrow> server_state \<Rightarrow> Request \<Rightarrow> ws_env \<Rightarrow> proxy_env
    \<Rightarrow> outcome" where
  "server_handleRequest dec s r we pe =
     (let host = strip_port (Host r) in
      if host = Domain' s \<or> host = TunnelDomain s \<or> host = ''localhost'' then
        (if URL_Path r = ''/ws'' then
           \<lparr>reply = [], waited = None, session = Some (fst (handleWebSocket dec s r we)),
            state = snd (handleWebSocket dec s r we)\<rparr>
         else
           \<lparr>reply = [WriteHeader http_StatusOK,
                     Write ''PublicTunnel Server is running. Use the client to connect.''],
            waited = None, session = None, state = s\<rparr>)
      else if strings_HasSuffix host (''.'' @ TunnelDomain s) then
        proxyToClient dec s (strings_TrimSuffix host (''.'' @ TunnelDomain s)) r pe
      else
        \<lparr>reply = [http_Error ''Not Found'' http_StatusNotFound],
         waited = None, session = None, state = s\<rparr>)"

subsection \<open>The client\<close>

record TunnelClient =
  ServerURL :: string
  LocalPort :: int
  Subdomain :: string

definition NewTunnelClient :: "string \<Rightarrow> int \<Rightarrow> string \<Rightarrow> TunnelClient" where
  "NewTunnelClient serverURL localPort subdomain =
     \<lparr>ServerURL = serverURL, LocalPort = localPort, Subdomain = subdomain\<rparr>"

text \<open>The verb \<^verbatim>\<open>%d\<close> of \<^verbatim>\<open>fmt.Sprintf\<close>: an integer in decimal.\<close>

fun decimal :: "nat \<Rightarrow> string" where
  "decimal n =
     (if n < 10 then [''0123456789'' ! n]
      else decimal (n div 10) @ [''0123456789'' ! (n mod 10)])"

definition Sprintf_d :: "int \<Rightarrow> string" where
  "Sprintf_d i = (if i < 0 then ''-'' @ decimal (nat (- i)) else decimal (nat i))"

text \<open>
  The request that the client builds for the local service: method, URL, the calls of
  \<^verbatim>\<open>Header.Add\<close> in their order, and the body.
\<close>

record LocalRequest =
  lreq_Method :: string
  lreq_URL :: string
  lreq_HeaderAdds :: "(string \<times> string) list"
  lreq_Body :: bytes

record LocalResponse =
  StatusCode :: int
  lresp_Header :: header_map
  lresp_Body :: body_stream

text \<open>
  What the client receives from outside: whether \<^verbatim>\<open>url.Parse\<close> rejects a text (with
  its error), and the result of \<^verbatim>\<open>httpClient.Do\<close> on a request, which is the text of
  an error or a response.
\<close>

record local_env =
  url_Parse :: "string \<Rightarrow> string option"
  Do :: "LocalRequest \<Rightarrow> string + LocalResponse"

text \<open>
  \<^verbatim>\<open>http.NewRequest\<close> takes the empty method for \<^verbatim>\<open>GET\<close>, refuses a method that
  is not a token of RFC 7230, and refuses a URL that does not parse.
\<close>

definition is_token_byte :: "char \<Rightarrow> bool" where
  "is_token_byte c =
     (c = CHR 0x27 \<or>
      c \<in> set ''!#$%&*+-.^_`|~0123456789abcdefghijklmnopqrstuvwxyzABCDEFGHIJKLMNOPQRSTUVWXYZ'')"

definition validMethod :: "string \<Rightarrow> bool" where
  "validMethod method = (method \<noteq> [] \<and> list_all is_token_byte method)"

datatype request_error = InvalidMethod string | InvalidURL string

definition http_NewRequest ::
  "local_env \<Rightarrow> string \<Rightarrow> string \<Rightarrow> bytes \<Rightarrow> request_error + LocalRequest" where
  "http_NewRequest env method url body =
     (let method = (if method = [] then ''GET'' else method) in
      if \<not> validMethod method then Inl (InvalidMethod method)
      else (case url_Parse env url of
              Some err \<Rightarrow> Inl (InvalidURL err)
            | None \<Rightarrow>
                Inr \<lparr>lreq_Method = method, lreq_URL = url, lreq_HeaderAdds = [],
                     lreq_Body = body\<rparr>))"

text \<open>
  \<^verbatim>\<open>sendResponse\<close> hands the message to \<^verbatim>\<open>conn.WriteJSON\<close> and logs an error of
  the write. The result of a task of the client is the list of the messages that it handed
  to \<^verbatim>\<open>WriteJSON\<close>.
\<close>

definition sendResponse :: "payload ControlMessage \<Rightarrow> payload ControlMessage list" where
  "sendResponse msg = [msg]"

definition client_handleRequest ::
  "TunnelClient \<Rightarrow> local_env \<Rightarrow> HttpRequestPayload \<Rightarrow> payload ControlMessage list" where
  "client_handleRequest c env req =
     (let localURL = ''http://localhost:'' @ Sprintf_d (LocalPort c) @ req_Path req in
      case http_NewRequest env (req_Method req) localURL (req_Body req) of
        Inl err \<Rightarrow> []
      | Inr httpReq0 \<Rightarrow>
         (let httpReq = httpReq0\<lparr>lreq_HeaderAdds :=
                concat (map (\<lambda>kvv. map (Pair (fst kvv)) (snd kvv)) (req_Headers req))\<rparr>;
              respPayload =
                (case Do env httpReq of
                   Inl err \<Rightarrow>
                     \<lparr>resp_ID = req_ID req, resp_Status = http_StatusBadGateway,
                      resp_Headers = [], resp_Body = ''Local request failed: '' @ err\<rparr>
                 | Inr resp \<Rightarrow>
                     \<lparr>resp_ID = req_ID req, resp_Status = StatusCode resp,
                      resp_Headers = lresp_Header resp,
                      resp_Body = fst (io_ReadAll (lresp_Body resp))\<rparr>);
              ctrlMsg = \<lparr>Type = TypeHttpResponse, Payload = HttpResponse respPayload\<rparr>
          in sendResponse ctrlMsg))"

text \<open>
  The payload of a \<^verbatim>\<open>REGISTER_RESP\<close> message, read into a
  \<^verbatim>\<open>RegisterRespPayload\<close>.
\<close>

definition ack_member ::
  "json_error option \<times> RegisterRespPayload \<Rightarrow> string \<times> json
    \<Rightarrow> json_error option \<times> RegisterRespPayload" where
  "ack_member acc kv =
     (if names_field (fst kv) ''subdomain'' then
        (let r = string_field (snd kv) (fst acc, ack_Subdomain (snd acc))
         in (fst r, (snd acc)\<lparr>ack_Subdomain := snd r\<rparr>))
      else if names_field (fst kv) ''url'' then
        (let r = string_field (snd kv) (fst acc, ack_URL (snd acc))
         in (fst r, (snd acc)\<lparr>ack_URL := snd r\<rparr>))
      else if names_field (fst kv) ''error'' then
        (let r = string_field (snd kv) (fst acc, ack_Error (snd acc))
         in (fst r, (snd acc)\<lparr>ack_Error := snd r\<rparr>))
      else acc)"

definition unmarshal_RegisterRespPayload ::
  "json \<Rightarrow> json_error option \<times> RegisterRespPayload" where
  "unmarshal_RegisterRespPayload p =
     (let zero = \<lparr>ack_Subdomain = [], ack_URL = [], ack_Error = []\<rparr> in
      case p of
        JNull \<Rightarrow> (None, zero)
      | JObject kvs \<Rightarrow> foldl ack_member (None, zero) (marshal_members kvs)
      | _ \<Rightarrow> (Some UnmarshalTypeError, zero))"

text \<open>
  One iteration of the loop of \<^verbatim>\<open>Start\<close>, lines 87 to 123: the loop goes on, with the
  messages written by the task that the iteration started, or \<^verbatim>\<open>Start\<close> returns an
  error. The second argument stands for the decoding of the payload into an
  \<^verbatim>\<open>HttpRequestPayload\<close>, whose error the loop drops.
\<close>

datatype start_error = ReadFailed | RegistrationFailed string

datatype client_step = Continue "payload ControlMessage list" | Return start_error

definition client_Start_read ::
  "TunnelClient \<Rightarrow> (json \<Rightarrow> HttpRequestPayload) \<Rightarrow> local_env \<Rightarrow> read_result \<Rightarrow> client_step" where
  "client_Start_read c dec env rd =
     (case rd of
        ReadError \<Rightarrow> Return ReadFailed
      | Message msg \<Rightarrow>
         (let d = unmarshal_ControlMessage msg; ctrl = snd d in
          if fst d \<noteq> None then Continue []
          else if Type ctrl = TypeRegisterResp then
            (let resp = snd (unmarshal_RegisterRespPayload (Payload ctrl)) in
             if ack_Error resp \<noteq> [] then Return (RegistrationFailed (ack_Error resp))
             else Continue [])
          else if Type ctrl = TypeHttpRequest then
            Continue (client_handleRequest c env (dec (Payload ctrl)))
          else Continue []))"

text \<open>
  A message answers the request \<open>reqID\<close> when the read loop takes it for an
  \<^verbatim>\<open>HTTP_RESPONSE\<close> whose payload carries this id.
\<close>

definition answers :: "(json \<Rightarrow> HttpResponsePayload) \<Rightarrow> string \<Rightarrow> raw_message \<Rightarrow> bool" where
  "answers dec reqID msg =
     (fst (unmarshal_ControlMessage msg) = None
      \<and> Type (snd (unmarshal_ControlMessage msg)) = TypeHttpResponse
      \<and> resp_ID (dec (Payload (snd (unmarshal_ControlMessage msg)))) = reqID)"

subsection \<open>A configuration for examples\<close>

text \<open>
  The server with the defaults of its command line, a request of the public side, the
  \<^verbatim>\<open>REGISTER\<close> message that the client writes for a name, and the text of a UUID.
\<close>

definition example_server :: server_state where
  "example_server = NewTunnelServer ''server.publictunnel.com'' ''publictunnel.com'' 4000"

definition example_request :: "string \<Rightarrow> string \<Rightarrow> Request" where
  "example_request host path =
     \<lparr>Host = host, URL_Path = path, Method = ''GET'', Header = [],
      Body = Stream [] None, TLS = False\<rparr>"

definition register_message :: "string \<Rightarrow> raw_message" where
  "register_message name =
     JSON (JObject [(''type'', JString ''REGISTER''),
                    (''payload'', JObject [(''subdomain'', JString name)])])"

definition example_uuid :: string where
  "example_uuid = ''abcd1234-5678-4abc-8def-0123456789ab''"

definition example_ws_env :: "conn \<Rightarrow> raw_message \<Rightarrow> ws_env" where
  "example_ws_env c msg =
     \<lparr>upgrade = Some c, first_read = Message msg, name_uuid = example_uuid,
      suffix_uuid = example_uuid, reads = []\<rparr>"

definition example_proxy_env :: "string option \<Rightarrow> raw_message list \<Rightarrow> proxy_env" where
  "example_proxy_env werr msgs =
     \<lparr>request_uuid = ''9f0c2d4e-1111-4222-8333-444455556666'', response_chan = 7,
      write_err = werr, inbound = msgs\<rparr>"

text \<open>
  The server after the client on connection 1 has registered the name \<open>demo\<close>; an
  \<^verbatim>\<open>HTTP_RESPONSE\<close> message whose payload has an id and the status 200; and the
  decoding of payloads with these two members, which leaves the other fields at their zero
  values.
\<close>

definition example_registered :: server_state where
  "example_registered =
     snd (handleWebSocket_handshake example_server
            (example_request ''server.publictunnel.com'' ''/ws'')
            (example_ws_env 1 (register_message ''demo'')))"

text \<open>
  The server after a second client, on connection 2, has asked for the name
  \<open>demo-abcd\<close>; and a \<^verbatim>\<open>REGISTER\<close> message whose payload is a number.
\<close>

definition example_crowded :: server_state where
  "example_crowded =
     snd (handleWebSocket_handshake example_registered
            (example_request ''server.publictunnel.com'' ''/ws'')
            (example_ws_env 2 (register_message ''demo-abcd'')))"

definition malformed_register :: raw_message where
  "malformed_register =
     JSON (JObject [(''type'', JString ''REGISTER''), (''payload'', JNumber (Some 42))])"

text \<open>
  Two \<^verbatim>\<open>REGISTER\<close> messages whose payloads are objects that fail to decode: one
  whose only member is a number, and one that names the field twice, first with a string
  and then with a number.
\<close>

definition mistyped_register :: raw_message where
  "mistyped_register =
     JSON (JObject [(''type'', JString ''REGISTER''),
                    (''payload'', JObject [(''subdomain'', JNumber (Some 123))])])"

definition half_decoded_register :: raw_message where
  "half_decoded_register =
     JSON (JObject [(''type'', JString ''REGISTER''),
                    (''payload'', JObject [(''Subdomain'', JString ''keep''),
                                           (''subdomain'', JNumber (Some 7))])])"

text \<open>
  A client that forwards to port 8080, a request as the server relays it, a local service
  that cannot be reached, and one that answers with status 200.
\<close>

definition example_client :: TunnelClient where
  "example_client = NewTunnelClient ''https://server.publictunnel.com'' 8080 ''demo''"

definition example_relayed :: "string \<Rightarrow> HttpRequestPayload" where
  "example_relayed method =
     \<lparr>req_ID = ''r1'', req_Method = method, req_Path = ''/health'',
      req_Headers = [(''Accept'', [''text/plain'', ''*/*''])], req_Body = []\<rparr>"


definition example_local_up :: local_env where
  "example_local_up =
     \<lparr>url_Parse = (\<lambda>u. None),
      Do = (\<lambda>q. Inr \<lparr>StatusCode = 200,
                       lresp_Header = [(''Content-Type'', [''application/json''])],
                       lresp_Body = Stream ''{ok:true}'' None\<rparr>)\<rparr>"

definition relayed_message :: "string \<Rightarrow> raw_message" where
  "relayed_message method =
     JSON (JObject [(''type'', JString ''HTTP_REQUEST''),
                    (''payload'', JObject [(''id'', JString ''r1''),
                                           (''method'', JString method),
                                           (''path'', JString ''/health'')])])"

definition response_message :: "string \<Rightarrow> raw_message" where
  "response_message reqID =
     JSON (JObject [(''type'', JString ''HTTP_RESPONSE''),
                    (''payload'', JObject [(''id'', JString reqID),
                                           (''status'', JNumber (Some 200))])])"

definition example_decoder :: "json \<Rightarrow> HttpResponsePayload" where
  "example_decoder p =
     (case p of
        JObject kvs \<Rightarrow>
          \<lparr>resp_ID = (case map_of kvs ''id'' of Some (JString i) \<Rightarrow> i | _ \<Rightarrow> []),
           resp_Status =
             (case map_of kvs ''status'' of
                Some (JNumber (Some q)) \<Rightarrow> (if of_int \<lfloor>q\<rfloor> = q then \<lfloor>q\<rfloor> else 0)
              | _ \<Rightarrow> 0),
           resp_Headers = [], resp_Body = []\<rparr>
      | _ \<Rightarrow> \<lparr>resp_ID = [], resp_Status = 0, resp_Headers = [], resp_Body = []\<rparr>)"

text \<open>
  The server when \<^verbatim>\<open>proxyToClient\<close> has opened the slot \<open>r1\<close> on channel 7 for a
  request to \<open>demo\<close>; the response with status 200 for it; and the server when the first
  such response was delivered and \<^verbatim>\<open>proxyToClient\<close> has received it, before it has
  written its reply and removed the slot.
\<close>

definition example_pending :: server_state where
  "example_pending = open_slot example_registered ''r1'' 7"

definition example_ok :: HttpResponsePayload where
  "example_ok = \<lparr>resp_ID = ''r1'', resp_Status = 200, resp_Headers = [], resp_Body = []\<rparr>"

definition example_received :: server_state where
  "example_received =
     state (await_response
       (snd (handleWebSocket_read example_decoder example_pending ''demo''
               (Message (response_message ''r1'')))) 7)"

section \<open>Properties\<close>

text \<open>
  C7. On the server and on the client the read deadline is 60 seconds, the ping period is
  54 seconds, which is nine tenths of the read deadline, and the write deadline is 10
  seconds; each constant of the server equals the constant of the same name of the client.
\<close>

theorem liveness_constants:
  "server_pongWait = 60 * Second \<and> server_pingPeriod = 54 * Second
   \<and> server_writeWait = 10 * Second
   \<and> client_pongWait = 60 * Second \<and> client_pingPeriod = 54 * Second
   \<and> client_writeWait = 10 * Second
   \<and> 10 * server_pingPeriod = 9 * server_pongWait
   \<and> 10 * client_pingPeriod = 9 * client_pongWait
   \<and> server_pongWait = client_pongWait \<and> server_pingPeriod = client_pingPeriod
   \<and> server_writeWait = client_writeWait
   \<and> Second = 10 ^ 9"
  by (simp add: server_pongWait_def server_pingPeriod_def server_writeWait_def
      client_pongWait_def client_pingPeriod_def client_writeWait_def Second_def)

subsection \<open>Routing by host\<close>

lemma strings_HasSuffix_append: "strings_HasSuffix (a @ b) b"
  by (simp add: strings_HasSuffix_def)

lemma strings_TrimSuffix_append: "strings_TrimSuffix (a @ b) b = a"
  by (simp add: strings_TrimSuffix_def strings_HasSuffix_append)

lemma subdomain_host_not_base: "name @ ''.'' @ td \<noteq> td"
proof
  assume "name @ ''.'' @ td = td"
  then have "length (name @ ''.'' @ td) = length td" by simp
  then show False by simp
qed

lemma subdomain_host_not_localhost: "name @ ''.'' @ td \<noteq> ''localhost''"
proof
  assume eq: "name @ ''.'' @ td = ''localhost''"
  have "CHR ''.'' \<in> set (name @ ''.'' @ td)" by simp
  then have "CHR ''.'' \<in> set ''localhost''" unfolding eq .
  then show False by simp
qed

lemma strip_port_unknown:
  "strip_port ''unknown.publictunnel.com:4000'' = ''unknown.publictunnel.com''"
  by (simp add: strip_port_def)

lemma strip_port_server:
  "strip_port ''server.publictunnel.com'' = ''server.publictunnel.com''"
  by (simp add: strip_port_def)

lemma strip_port_localhost: "strip_port ''localhost:4000'' = ''localhost''"
  by (simp add: strip_port_def)

text \<open>
  C6, as stated: a request whose host without the port is \<open>name.TunnelDomain\<close>, with
  \<open>name\<close> not in the registry, is answered with 404. With the defaults of the server the
  host \<open>server.publictunnel.com\<close> has this form for the name \<open>server\<close>, which is not
  registered, and it is the control domain: the request is answered with the status page.
\<close>

theorem control_domain_shadows_tunnel_counterexample:
  "strip_port (Host (example_request ''server.publictunnel.com'' ''/''))
     = ''server'' @ ''.'' @ TunnelDomain example_server
   \<and> clients example_server ''server'' = None
   \<and> reply (server_handleRequest example_decoder example_server
        (example_request ''server.publictunnel.com'' ''/'')
        (example_ws_env 1 (register_message ''demo'')) (example_proxy_env None []))
     = [WriteHeader 200, Write ''PublicTunnel Server is running. Use the client to connect.'']"
  by (simp add: strip_port_server example_request_def example_server_def NewTunnelServer_def
      server_handleRequest_def http_StatusOK_def)

text \<open>
  C6, amended: a request whose host without the port is \<open>name.TunnelDomain\<close> and is not
  the control domain, with \<open>name\<close> not in the registry, is answered with
  \<^verbatim>\<open>http.Error(w, "Tunnel not found", 404)\<close>; the state of the server, with its
  registry, its table of pending requests and the messages written to control connections,
  is the one before the request.
\<close>

theorem unknown_subdomain_not_found:
  assumes "strip_port (Host r) = name @ ''.'' @ TunnelDomain s"
    and "strip_port (Host r) \<noteq> Domain' s"
    and "clients s name = None"
  shows "server_handleRequest dec s r we pe =
           \<lparr>reply = [http_Error ''Tunnel not found'' http_StatusNotFound],
            waited = None, session = None, state = s\<rparr>
         \<and> http_StatusNotFound = 404"
proof -
  have suffix: "strings_HasSuffix (strip_port (Host r)) (''.'' @ TunnelDomain s)"
    using assms(1) strings_HasSuffix_append [of name "''.'' @ TunnelDomain s"] by simp
  have trim: "strings_TrimSuffix (strip_port (Host r)) (''.'' @ TunnelDomain s) = name"
    using assms(1) strings_TrimSuffix_append [of name "''.'' @ TunnelDomain s"] by simp
  have nb: "strip_port (Host r) \<noteq> TunnelDomain s"
    using assms(1) subdomain_host_not_base [of name "TunnelDomain s"] by simp
  have nl: "strip_port (Host r) \<noteq> ''localhost''"
    using assms(1) subdomain_host_not_localhost [of name "TunnelDomain s"] by simp
  have "server_handleRequest dec s r we pe = proxyToClient dec s name r pe"
    using assms(2) nb nl suffix trim by (simp add: server_handleRequest_def Let_def)
  then show ?thesis
    using assms(3) by (simp add: proxyToClient_def http_StatusNotFound_def)
qed

text \<open>
  Witness for C6: the request for \<open>unknown.publictunnel.com:4000\<close> on the server with
  the default configuration and an empty registry.
\<close>

theorem unknown_subdomain_not_found_witness:
  "server_handleRequest example_decoder example_server
      (example_request ''unknown.publictunnel.com:4000'' ''/health'')
      (example_ws_env 1 (register_message ''demo'')) (example_proxy_env None [])
    = \<lparr>reply = [http_Error ''Tunnel not found'' http_StatusNotFound],
       waited = None, session = None, state = example_server\<rparr>"
proof -
  have h: "strip_port (Host (example_request ''unknown.publictunnel.com:4000'' ''/health''))
        = ''unknown'' @ ''.'' @ TunnelDomain example_server"
    by (simp add: strip_port_unknown example_request_def example_server_def NewTunnelServer_def)
  have d: "strip_port (Host (example_request ''unknown.publictunnel.com:4000'' ''/health''))
        \<noteq> Domain' example_server"
    by (simp add: strip_port_unknown example_request_def example_server_def NewTunnelServer_def)
  have c: "clients example_server ''unknown'' = None"
    by (simp add: example_server_def NewTunnelServer_def)
  show ?thesis
    using unknown_subdomain_not_found [OF h d c] by (rule conjunct1)
qed

lemma public_scheme_ignores_host: "public_scheme (r\<lparr>Host := h\<rparr>) = public_scheme r"
  by (simp add: public_scheme_def)

lemma handshake_ignores_host:
  "handleWebSocket_handshake s (r\<lparr>Host := h\<rparr>) e = handleWebSocket_handshake s r e"
  unfolding handleWebSocket_handshake_def public_scheme_ignores_host by (rule refl)

lemma handleWebSocket_ignores_host:
  "handleWebSocket dec s (r\<lparr>Host := h\<rparr>) e = handleWebSocket dec s r e"
  unfolding handleWebSocket_def handshake_ignores_host by (rule refl)

text \<open>
  C9. A request whose host without the port is \<open>localhost\<close> is handled as a request to
  the control domain is: on the path \<open>/ws\<close> it enters \<^verbatim>\<open>handleWebSocket\<close>, on any
  other path it gets the status page with status 200, whatever the configured domains are;
  the same request with a host that is the control domain has the same outcome.
\<close>

theorem localhost_is_control_host:
  assumes "strip_port (Host r) = ''localhost''"
  shows "server_handleRequest dec s r we pe =
           (if URL_Path r = ''/ws'' then
              \<lparr>reply = [], waited = None, session = Some (fst (handleWebSocket dec s r we)),
               state = snd (handleWebSocket dec s r we)\<rparr>
            else
              \<lparr>reply = [WriteHeader http_StatusOK,
                        Write ''PublicTunnel Server is running. Use the client to connect.''],
               waited = None, session = None, state = s\<rparr>)
         \<and> (strip_port h = Domain' s \<longrightarrow>
              server_handleRequest dec s (r\<lparr>Host := h\<rparr>) we pe
                = server_handleRequest dec s r we pe)"
proof -
  have a: "server_handleRequest dec s r we pe =
           (if URL_Path r = ''/ws'' then
              \<lparr>reply = [], waited = None, session = Some (fst (handleWebSocket dec s r we)),
               state = snd (handleWebSocket dec s r we)\<rparr>
            else
              \<lparr>reply = [WriteHeader http_StatusOK,
                        Write ''PublicTunnel Server is running. Use the client to connect.''],
               waited = None, session = None, state = s\<rparr>)"
    using assms by (simp add: server_handleRequest_def)
  have b: "server_handleRequest dec s (r\<lparr>Host := h\<rparr>) we pe
             = server_handleRequest dec s r we pe" if "strip_port h = Domain' s"
    using that assms by (simp add: server_handleRequest_def handleWebSocket_ignores_host)
  show ?thesis using a b by blast
qed

text \<open>
  Witness for C9: \<open>localhost:4000\<close> on the server with the default configuration, where
  \<open>localhost\<close> is neither of the two configured domains, against the control domain.
\<close>

theorem localhost_is_control_host_witness:
  "strip_port (Host (example_request ''localhost:4000'' ''/'')) = ''localhost''
   \<and> ''localhost'' \<noteq> Domain' example_server \<and> ''localhost'' \<noteq> TunnelDomain example_server
   \<and> strip_port ''server.publictunnel.com'' = Domain' example_server
   \<and> server_handleRequest example_decoder example_server
        (example_request ''localhost:4000'' ''/'')
        (example_ws_env 1 (register_message ''demo'')) (example_proxy_env None [])
      = \<lparr>reply = [WriteHeader http_StatusOK,
                   Write ''PublicTunnel Server is running. Use the client to connect.''],
          waited = None, session = None, state = example_server\<rparr>
   \<and> server_handleRequest example_decoder example_server
        ((example_request ''localhost:4000'' ''/'')\<lparr>Host := ''server.publictunnel.com''\<rparr>)
        (example_ws_env 1 (register_message ''demo'')) (example_proxy_env None [])
      = server_handleRequest example_decoder example_server
        (example_request ''localhost:4000'' ''/'')
        (example_ws_env 1 (register_message ''demo'')) (example_proxy_env None [])"
proof -
  have h: "strip_port (Host (example_request ''localhost:4000'' ''/'')) = ''localhost''"
    by (simp add: strip_port_localhost example_request_def)
  have p: "URL_Path (example_request ''localhost:4000'' ''/'') \<noteq> ''/ws''"
    by (simp add: example_request_def)
  have d: "strip_port ''server.publictunnel.com'' = Domain' example_server"
    by (simp add: strip_port_server example_server_def NewTunnelServer_def)
  have n: "''localhost'' \<noteq> Domain' example_server \<and> ''localhost'' \<noteq> TunnelDomain example_server"
    by (simp add: example_server_def NewTunnelServer_def)
  show ?thesis
    using localhost_is_control_host [OF h, of example_decoder example_server
        "example_ws_env 1 (register_message ''demo'')" "example_proxy_env None []"
        "''server.publictunnel.com''"] h p d n
    by simp
qed

subsection \<open>The table of pending requests\<close>

lemma chan_send_pendingReqs: "pendingReqs (snd (chan_send s ch v)) = pendingReqs s"
  by (simp add: chan_send_def)

lemma deliver_pendingReqs: "pendingReqs (snd (deliver s x)) = pendingReqs s"
  by (simp add: deliver_def chan_send_pendingReqs split: option.split send_result.split)

lemma read_pendingReqs:
  "pendingReqs (snd (handleWebSocket_read dec s sub rd)) = pendingReqs s"
  by (simp add: handleWebSocket_read_def Let_def deliver_pendingReqs split: read_result.split)

lemma loop_pendingReqs:
  "pendingReqs (snd (handleWebSocket_loop dec s sub rds)) = pendingReqs s"
proof (induction rds arbitrary: s)
  case Nil
  show ?case by simp
next
  case (Cons rd rds)
  show ?case
  proof (cases "fst (handleWebSocket_read dec s sub rd)")
    case Reading
    then show ?thesis by (simp add: Cons.IH read_pendingReqs)
  next
    case (Sending ch v)
    then show ?thesis by (simp add: read_pendingReqs)
  next
    case Closed
    then show ?thesis by (simp add: read_pendingReqs)
  qed
qed

lemma deliver_other_chan:
  "pendingReqs s (resp_ID x) \<noteq> Some ch \<Longrightarrow> chans (snd (deliver s x)) ch = chans s ch"
  by (auto simp add: deliver_def chan_send_def split: option.split send_result.split)

lemma read_keeps_chan:
  assumes only: "\<And>k. pendingReqs s k = Some ch \<Longrightarrow> k = reqID"
    and no: "\<not> answers dec reqID msg"
  shows "chans (snd (handleWebSocket_read dec s sub (Message msg))) ch = chans s ch"
proof (cases "fst (unmarshal_ControlMessage msg) = None
    \<and> Type (snd (unmarshal_ControlMessage msg)) = TypeHttpResponse")
  case True
  with no have "resp_ID (dec (Payload (snd (unmarshal_ControlMessage msg)))) \<noteq> reqID"
    by (simp add: answers_def)
  with only have "pendingReqs s (resp_ID (dec (Payload (snd (unmarshal_ControlMessage msg)))))
      \<noteq> Some ch"
    by blast
  then show ?thesis
    using True by (simp add: handleWebSocket_read_def Let_def deliver_other_chan)
next
  case False
  then show ?thesis
    by (auto simp add: handleWebSocket_read_def Let_def)
qed

lemma loop_keeps_chan:
  assumes only: "\<And>k. pendingReqs s k = Some ch \<Longrightarrow> k = reqID"
    and no: "list_all (\<lambda>m. \<not> answers dec reqID m) msgs"
  shows "chans (snd (handleWebSocket_loop dec s sub (map Message msgs))) ch = chans s ch"
  using assms
proof (induction msgs arbitrary: s)
  case Nil
  show ?case by simp
next
  case (Cons m msgs)
  let ?s' = "snd (handleWebSocket_read dec s sub (Message m))"
  have nom: "\<not> answers dec reqID m"
    using Cons.prems(2) by simp
  have step: "chans ?s' ch = chans s ch"
    using Cons.prems(1) nom by (rule read_keeps_chan)
  have only': "\<And>k. pendingReqs ?s' k = Some ch \<Longrightarrow> k = reqID"
    using Cons.prems(1) by (simp add: read_pendingReqs)
  have rest: "list_all (\<lambda>m. \<not> answers dec reqID m) msgs"
    using Cons.prems(2) by simp
  show ?case
  proof (cases "fst (handleWebSocket_read dec s sub (Message m))")
    case Reading
    then show ?thesis
      using Cons.IH [OF only' rest] step by simp
  next
    case (Sending c v)
    then show ?thesis using step by simp
  next
    case Closed
    then show ?thesis using step by simp
  qed
qed


lemma proxyToClient_found:
  assumes "clients s subdomain = Some conn"
  shows "proxyToClient dec s subdomain r e =
    release (request_uuid e)
      (case write_err e of
         Some err \<Rightarrow>
           \<lparr>reply = [http_Error ''Failed to send request to client''
                       http_StatusInternalServerError],
            waited = None, session = None,
            state = WriteJSON (open_slot s (request_uuid e) (response_chan e)) conn
                      (request_message r (request_uuid e))\<rparr>
       | None \<Rightarrow>
           await_response
             (snd (handleWebSocket_loop dec
                (WriteJSON (open_slot s (request_uuid e) (response_chan e)) conn
                      (request_message r (request_uuid e)))
                subdomain (map Message (inbound e))))
             (response_chan e))"
  using assms by (simp add: proxyToClient_def Let_def)

lemma await_response_pendingReqs:
  "pendingReqs (state (await_response s ch)) = pendingReqs s"
  by (simp add: await_response_def split: list.split)

lemma slot_pendingReqs:
  "pendingReqs (WriteJSON (open_slot s k ch) conn m) = (pendingReqs s)(k \<mapsto> ch)"
  by (simp add: WriteJSON_def open_slot_def)

lemma slot_chans:
  "chans (WriteJSON (open_slot s k ch) conn m) ch = []"
  by (simp add: WriteJSON_def open_slot_def)

lemma proxyToClient_pendingReqs:
  assumes "clients s subdomain = Some conn"
  shows "pendingReqs (state (proxyToClient dec s subdomain r e))
           = (pendingReqs s)(request_uuid e := None)"
proof (cases "write_err e")
  case None
  then show ?thesis
    by (simp add: proxyToClient_found [OF assms] release_def await_response_pendingReqs
        loop_pendingReqs slot_pendingReqs)
next
  case (Some err)
  then show ?thesis
    by (simp add: proxyToClient_found [OF assms] release_def slot_pendingReqs)
qed

lemma proxyToClient_timeout:
  assumes found: "clients s subdomain = Some conn"
    and ok: "write_err e = None"
    and fresh: "response_chan e \<notin> ran (pendingReqs s)"
    and silent: "list_all (\<lambda>m. \<not> answers dec (request_uuid e) m) (inbound e)"
  shows "reply (proxyToClient dec s subdomain r e)
           = [http_Error ''Gateway timeout'' http_StatusGatewayTimeout]
         \<and> waited (proxyToClient dec s subdomain r e) = Some (TimedOut (30 * Second))"
proof -
  let ?s2 = "WriteJSON (open_slot s (request_uuid e) (response_chan e)) conn
               (request_message r (request_uuid e))"
  have only: "\<And>k. pendingReqs ?s2 k = Some (response_chan e) \<Longrightarrow> k = request_uuid e"
  proof -
    fix k assume a: "pendingReqs ?s2 k = Some (response_chan e)"
    show "k = request_uuid e"
    proof (rule ccontr)
      assume "k \<noteq> request_uuid e"
      with a have "pendingReqs s k = Some (response_chan e)"
        by (simp add: slot_pendingReqs)
      then have "response_chan e \<in> ran (pendingReqs s)"
        by (rule ranI)
      with fresh show False by simp
    qed
  qed
  have "chans (snd (handleWebSocket_loop dec ?s2 subdomain (map Message (inbound e))))
          (response_chan e) = chans ?s2 (response_chan e)"
    using only silent by (rule loop_keeps_chan)
  then have empty: "chans (snd (handleWebSocket_loop dec ?s2 subdomain (map Message (inbound e))))
          (response_chan e) = []"
    by (simp add: slot_chans)
  show ?thesis
    using ok empty
    by (simp add: proxyToClient_found [OF found] release_def await_response_def)
qed

text \<open>
  C2. When the subdomain is registered, \<^verbatim>\<open>proxyToClient\<close> leaves no slot for the id of
  its request in the table, whether the write failed, a response was received or the timer
  fired; when the id was not in the table before, the table after the call is the table
  before it. When the write succeeded and no message that the read loop handled during the
  wait answers the request, the caller gets
  \<^verbatim>\<open>http.Error(w, "Gateway timeout", 504)\<close> when the timer of 30 seconds fires.
\<close>

theorem proxyToClient_releases_slot:
  assumes "clients s subdomain = Some conn"
  shows "pendingReqs (state (proxyToClient dec s subdomain r e)) (request_uuid e) = None
     \<and> (pendingReqs s (request_uuid e) = None \<longrightarrow>
          pendingReqs (state (proxyToClient dec s subdomain r e)) = pendingReqs s)
     \<and> (write_err e = None \<and> response_chan e \<notin> ran (pendingReqs s)
          \<and> list_all (\<lambda>m. \<not> answers dec (request_uuid e) m) (inbound e) \<longrightarrow>
          reply (proxyToClient dec s subdomain r e)
            = [http_Error ''Gateway timeout'' http_StatusGatewayTimeout]
          \<and> waited (proxyToClient dec s subdomain r e) = Some (TimedOut (30 * Second)))
     \<and> http_StatusGatewayTimeout = 504"
proof -
  have a: "pendingReqs (state (proxyToClient dec s subdomain r e)) (request_uuid e) = None"
    by (simp add: proxyToClient_pendingReqs [OF assms])
  have b: "pendingReqs (state (proxyToClient dec s subdomain r e)) = pendingReqs s"
    if "pendingReqs s (request_uuid e) = None"
    using that by (simp add: proxyToClient_pendingReqs [OF assms] fun_upd_idem)
  have c: "reply (proxyToClient dec s subdomain r e)
            = [http_Error ''Gateway timeout'' http_StatusGatewayTimeout]
          \<and> waited (proxyToClient dec s subdomain r e) = Some (TimedOut (30 * Second))"
    if "write_err e = None \<and> response_chan e \<notin> ran (pendingReqs s)
          \<and> list_all (\<lambda>m. \<not> answers dec (request_uuid e) m) (inbound e)"
    using that proxyToClient_timeout [OF assms, of e dec r] by blast
  have d: "http_StatusGatewayTimeout = 504"
    by (simp add: http_StatusGatewayTimeout_def)
  show ?thesis using a b c d by blast
qed

text \<open>
  C5, amended: when the write of the request to the connection of the client fails,
  \<^verbatim>\<open>proxyToClient\<close> answers with
  \<^verbatim>\<open>http.Error(w, "Failed to send request to client", 500)\<close>, status 500 Internal
  Server Error, and does not wait: the outcome does not depend on the messages that arrive.
\<close>

theorem write_failure_is_500:
  assumes "clients s subdomain = Some conn" and "write_err e = Some err"
  shows "reply (proxyToClient dec s subdomain r e)
           = [http_Error ''Failed to send request to client'' http_StatusInternalServerError]
       \<and> waited (proxyToClient dec s subdomain r e) = None
       \<and> proxyToClient dec s subdomain r (e\<lparr>inbound := msgs\<rparr>) = proxyToClient dec s subdomain r e
       \<and> http_StatusInternalServerError = 500"
  using assms(2)
  by (simp add: proxyToClient_found [OF assms(1)] release_def
      http_StatusInternalServerError_def)


lemma unmarshal_register_message:
  "unmarshal_ControlMessage (register_message name)
     = (None, \<lparr>Type = TypeRegister, Payload = JObject [(''subdomain'', JString name)]\<rparr>)"
  by (simp add: register_message_def unmarshal_ControlMessage_def ctrl_member_def
      names_field_def string_field_def TypeRegister_def)

lemma unmarshal_subdomain_payload:
  "unmarshal_RegisterPayload (JObject [(''subdomain'', JString name)])
     = (None, \<lparr>reg_Subdomain = name\<rparr>)"
  by (simp add: unmarshal_RegisterPayload_def marshal_members_def reg_member_def
      names_field_def string_field_def)

lemma unmarshal_response_message:
  "unmarshal_ControlMessage (response_message k)
     = (None, \<lparr>Type = TypeHttpResponse,
               Payload = JObject [(''id'', JString k), (''status'', JNumber (Some 200))]\<rparr>)"
  by (simp add: response_message_def unmarshal_ControlMessage_def ctrl_member_def
      names_field_def string_field_def TypeHttpResponse_def)

lemma example_decoder_response:
  "example_decoder (JObject [(''id'', JString k), (''status'', JNumber (Some 200))])
     = \<lparr>resp_ID = k, resp_Status = 200, resp_Headers = [], resp_Body = []\<rparr>"
  by (simp add: example_decoder_def)

lemma example_registered_clients: "clients example_registered = [''demo'' \<mapsto> 1]"
  by (simp add: example_registered_def handleWebSocket_handshake_def example_ws_env_def
      unmarshal_register_message unmarshal_subdomain_payload requested_subdomain_def
      bind_client_def WriteJSON_def example_server_def NewTunnelServer_def Let_def)

lemma example_registered_pendingReqs: "pendingReqs example_registered = Map.empty"
  by (simp add: example_registered_def handleWebSocket_handshake_def example_ws_env_def
      unmarshal_register_message unmarshal_subdomain_payload requested_subdomain_def
      bind_client_def WriteJSON_def example_server_def NewTunnelServer_def Let_def)

lemma example_registered_chans: "chans example_registered = (\<lambda>ch. [])"
  by (simp add: example_registered_def handleWebSocket_handshake_def example_ws_env_def
      unmarshal_register_message unmarshal_subdomain_payload requested_subdomain_def
      bind_client_def WriteJSON_def example_server_def NewTunnelServer_def Let_def)

text \<open>
  Witness for C2: a request to \<open>demo\<close>, whose client sends one response for another id.
\<close>

theorem proxyToClient_releases_slot_witness:
  "clients example_registered ''demo'' = Some 1
   \<and> pendingReqs example_registered
        (request_uuid (example_proxy_env None [response_message ''other''])) = None
   \<and> list_all (\<lambda>m. \<not> answers example_decoder
          (request_uuid (example_proxy_env None [response_message ''other''])) m)
        (inbound (example_proxy_env None [response_message ''other'']))
   \<and> pendingReqs (state (proxyToClient example_decoder example_registered ''demo''
        (example_request ''demo.publictunnel.com'' ''/health'')
        (example_proxy_env None [response_message ''other''])))
      = pendingReqs example_registered
   \<and> reply (proxyToClient example_decoder example_registered ''demo''
        (example_request ''demo.publictunnel.com'' ''/health'')
        (example_proxy_env None [response_message ''other'']))
      = [http_Error ''Gateway timeout'' http_StatusGatewayTimeout]
   \<and> waited (proxyToClient example_decoder example_registered ''demo''
        (example_request ''demo.publictunnel.com'' ''/health'')
        (example_proxy_env None [response_message ''other'']))
      = Some (TimedOut (30 * Second))"
proof -
  have found: "clients example_registered ''demo'' = Some 1"
    by (simp add: example_registered_clients)
  have free: "pendingReqs example_registered
        (request_uuid (example_proxy_env None [response_message ''other''])) = None"
    by (simp add: example_registered_pendingReqs)
  have ok: "write_err (example_proxy_env None [response_message ''other'']) = None"
    by (simp add: example_proxy_env_def)
  have fresh: "response_chan (example_proxy_env None [response_message ''other''])
      \<notin> ran (pendingReqs example_registered)"
    by (simp add: example_registered_pendingReqs)
  have silent: "list_all (\<lambda>m. \<not> answers example_decoder
          (request_uuid (example_proxy_env None [response_message ''other''])) m)
        (inbound (example_proxy_env None [response_message ''other'']))"
    by (simp add: example_proxy_env_def answers_def unmarshal_response_message
        example_decoder_response)
  show ?thesis
    using proxyToClient_releases_slot [OF found, of example_decoder
        "example_request ''demo.publictunnel.com'' ''/health''"
        "example_proxy_env None [response_message ''other'']"]
      found free ok fresh silent
    by blast
qed

text \<open>
  Witness for C5: a request to \<open>demo\<close> whose write fails.
\<close>

theorem write_failure_is_500_witness:
  "clients example_registered ''demo'' = Some 1
   \<and> write_err (example_proxy_env (Some ''broken pipe'') []) = Some ''broken pipe''
   \<and> reply (proxyToClient example_decoder example_registered ''demo''
        (example_request ''demo.publictunnel.com'' ''/health'')
        (example_proxy_env (Some ''broken pipe'') []))
      = [http_Error ''Failed to send request to client'' http_StatusInternalServerError]
   \<and> waited (proxyToClient example_decoder example_registered ''demo''
        (example_request ''demo.publictunnel.com'' ''/health'')
        (example_proxy_env (Some ''broken pipe'') [])) = None"
proof -
  have found: "clients example_registered ''demo'' = Some 1"
    by (simp add: example_registered_clients)
  have bad: "write_err (example_proxy_env (Some ''broken pipe'') []) = Some ''broken pipe''"
    by (simp add: example_proxy_env_def)
  show ?thesis
    using write_failure_is_500 [OF found bad, of example_decoder
        "example_request ''demo.publictunnel.com'' ''/health''" "[]"] found bad
    by blast
qed

text \<open>
  C5, as stated: the answer to a failed write has status 502. On a request to \<open>demo\<close>
  whose write fails the status is 500.
\<close>

theorem write_failure_not_502_counterexample:
  "reply (proxyToClient example_decoder example_registered ''demo''
        (example_request ''demo.publictunnel.com'' ''/health'')
        (example_proxy_env (Some ''broken pipe'') []))
      = [http_Error ''Failed to send request to client'' 500]
   \<and> (500::int) \<noteq> http_StatusBadGateway"
  by (simp add: proxyToClient_def example_registered_clients example_proxy_env_def Let_def
      release_def http_StatusInternalServerError_def http_StatusBadGateway_def)

lemma deliver_unknown_id:
  "pendingReqs s (resp_ID x) = None \<Longrightarrow> deliver s x = (Reading, s)"
  by (simp add: deliver_def)

lemma read_unknown_id:
  assumes "fst (unmarshal_ControlMessage msg) = None"
    and "Type (snd (unmarshal_ControlMessage msg)) = TypeHttpResponse"
    and "pendingReqs s (resp_ID (dec (Payload (snd (unmarshal_ControlMessage msg))))) = None"
  shows "handleWebSocket_read dec s sub (Message msg) = (Reading, s)"
  using assms by (simp add: handleWebSocket_read_def Let_def deliver_unknown_id)

text \<open>
  C1. The claim: a response is delivered into a slot at most once, and the delivery never
  blocks the read loop. With the slot \<open>r1\<close> open, the first response for \<open>r1\<close> is put
  in the buffer of the channel and the slot stays in the table; when the same message comes
  again before \<^verbatim>\<open>proxyToClient\<close> has received, the read loop is parked in the send.
  When \<^verbatim>\<open>proxyToClient\<close> has received the first response and has not yet removed the
  slot, a second response is delivered into the same slot, and a third parks the read loop
  with no receive left to come.
\<close>

theorem duplicate_response_parks_read_loop:
  "pendingReqs example_pending ''r1'' = Some 7
   \<and> handleWebSocket_read example_decoder example_pending ''demo''
          (Message (response_message ''r1''))
       = deliver example_pending example_ok
   \<and> fst (deliver example_pending example_ok) = Reading
   \<and> chans (snd (deliver example_pending example_ok)) 7 = [example_ok]
   \<and> pendingReqs (snd (deliver example_pending example_ok)) ''r1'' = Some 7
   \<and> fst (handleWebSocket_loop example_decoder example_pending ''demo''
          [Message (response_message ''r1''), Message (response_message ''r1'')])
       = Sending 7 example_ok
   \<and> waited (await_response (snd (deliver example_pending example_ok)) 7)
       = Some (Received example_ok)
   \<and> pendingReqs example_received ''r1'' = Some 7
   \<and> chans example_received 7 = []
   \<and> fst (deliver example_received example_ok) = Reading
   \<and> chans (snd (deliver example_received example_ok)) 7 = [example_ok]
   \<and> fst (handleWebSocket_loop example_decoder example_received ''demo''
          [Message (response_message ''r1''), Message (response_message ''r1'')])
       = Sending 7 example_ok"
  by (simp add: handleWebSocket_read_def unmarshal_response_message example_decoder_response
      deliver_def chan_send_def respCh_capacity_def open_slot_def example_registered_chans
      example_registered_pendingReqs example_pending_def example_ok_def example_received_def
      await_response_def Let_def)

subsection \<open>Registration\<close>

lemma bind_client_clients:
  "clients (snd (bind_client s n c u)) = (clients s)(fst (bind_client s n c u) \<mapsto> c)"
  by (simp add: bind_client_def Let_def)

lemma bind_client_name:
  "fst (bind_client s n c u) = (if clients s n = None then n else n @ ''-'' @ take 4 u)"
  by (simp add: bind_client_def Let_def)

lemma handshake_rejects:
  assumes "upgrade e = Some conn" and "first_read e = Message msg"
    and "fst (unmarshal_ControlMessage msg) \<noteq> None
         \<or> Type (snd (unmarshal_ControlMessage msg)) \<noteq> TypeRegister"
  shows "handleWebSocket_handshake s r e = (None, s)"
  using assms by (auto simp add: handleWebSocket_handshake_def Let_def)

lemma handshake_registers:
  assumes "upgrade e = Some conn" and "first_read e = Message msg"
    and "fst (unmarshal_ControlMessage msg) = None"
    and "Type (snd (unmarshal_ControlMessage msg)) = TypeRegister"
  shows "fst (handleWebSocket_handshake s r e) =
           Some (fst (bind_client s
                   (requested_subdomain
                      (snd (unmarshal_RegisterPayload (Payload (snd (unmarshal_ControlMessage msg)))))
                      (name_uuid e))
                   conn (suffix_uuid e)), conn)"
    and "clients (snd (handleWebSocket_handshake s r e)) =
           clients (snd (bind_client s
                   (requested_subdomain
                      (snd (unmarshal_RegisterPayload (Payload (snd (unmarshal_ControlMessage msg)))))
                      (name_uuid e))
                   conn (suffix_uuid e)))"
  using assms by (simp_all add: handleWebSocket_handshake_def Let_def WriteJSON_def)

text \<open>
  C3, amended. A handshake whose first message decodes to a \<^verbatim>\<open>REGISTER\<close> message
  registers the client. The candidate name is the requested one, or the first eight
  characters of a UUID when none is requested. A candidate that is free is assigned as it
  is; a candidate that is taken is assigned with a dash and the first four characters of a
  UUID appended, five characters more, and this name is bound without a further check,
  replacing a binding that it may have. When two clients ask for the same free name one
  after the other, the first gets the name and the second the name with a suffix, and both
  are bound to their connections afterwards.
\<close>

theorem registration_names:
  assumes up: "upgrade e = Some conn" and rd: "first_read e = Message msg"
    and env: "fst (unmarshal_ControlMessage msg) = None"
    and ty: "Type (snd (unmarshal_ControlMessage msg)) = TypeRegister"
    and req: "requested = reg_Subdomain (snd (unmarshal_RegisterPayload
                (Payload (snd (unmarshal_ControlMessage msg)))))"
    and cand: "candidate = (if requested = [] then take 8 (name_uuid e) else requested)"
    and asg: "assigned = (if clients s candidate = None then candidate
                          else candidate @ ''-'' @ take 4 (suffix_uuid e))"
  shows "fst (handleWebSocket_handshake s r e) = Some (assigned, conn)
     \<and> clients (snd (handleWebSocket_handshake s r e)) = (clients s)(assigned \<mapsto> conn)
     \<and> (requested = [] \<and> length (name_uuid e) = 36 \<longrightarrow> length candidate = 8)
     \<and> (clients s candidate \<noteq> None \<and> length (suffix_uuid e) = 36 \<longrightarrow>
          length assigned = length candidate + 5)
     \<and> (requested \<noteq> [] \<and> clients s requested = None
          \<and> upgrade e2 = Some conn2 \<and> first_read e2 = Message msg \<longrightarrow>
          assigned = requested
          \<and> fst (handleWebSocket_handshake (snd (handleWebSocket_handshake s r e)) r2 e2)
              = Some (requested @ ''-'' @ take 4 (suffix_uuid e2), conn2)
          \<and> clients (snd (handleWebSocket_handshake
                (snd (handleWebSocket_handshake s r e)) r2 e2)) requested = Some conn
          \<and> clients (snd (handleWebSocket_handshake
                (snd (handleWebSocket_handshake s r e)) r2 e2))
                (requested @ ''-'' @ take 4 (suffix_uuid e2)) = Some conn2)"
proof -
  have cand': "candidate = requested_subdomain (snd (unmarshal_RegisterPayload
                (Payload (snd (unmarshal_ControlMessage msg))))) (name_uuid e)"
    using req cand by (simp add: requested_subdomain_def)
  have name: "fst (handleWebSocket_handshake s r e) = Some (assigned, conn)"
    using handshake_registers(1) [OF up rd env ty, of s r] cand' asg
    by (simp add: bind_client_name)
  have bound: "clients (snd (handleWebSocket_handshake s r e)) = (clients s)(assigned \<mapsto> conn)"
    using handshake_registers(2) [OF up rd env ty, of s r] cand' asg
    by (simp add: bind_client_clients bind_client_name)
  have len8: "length candidate = 8" if "requested = [] \<and> length (name_uuid e) = 36"
    using that cand by simp
  have len5: "length assigned = length candidate + 5"
    if "clients s candidate \<noteq> None \<and> length (suffix_uuid e) = 36"
    using that asg by simp
  have two: "assigned = requested
          \<and> fst (handleWebSocket_handshake (snd (handleWebSocket_handshake s r e)) r2 e2)
              = Some (requested @ ''-'' @ take 4 (suffix_uuid e2), conn2)
          \<and> clients (snd (handleWebSocket_handshake
                (snd (handleWebSocket_handshake s r e)) r2 e2)) requested = Some conn
          \<and> clients (snd (handleWebSocket_handshake
                (snd (handleWebSocket_handshake s r e)) r2 e2))
                (requested @ ''-'' @ take 4 (suffix_uuid e2)) = Some conn2"
    if h: "requested \<noteq> [] \<and> clients s requested = None
          \<and> upgrade e2 = Some conn2 \<and> first_read e2 = Message msg"
  proof -
    from h have ne: "requested \<noteq> []" and free: "clients s requested = None"
      and up2: "upgrade e2 = Some conn2" and rd2: "first_read e2 = Message msg"
      by simp_all
    have c: "candidate = requested" using cand ne by simp
    have a: "assigned = requested" using asg c free by simp
    let ?s1 = "snd (handleWebSocket_handshake s r e)"
    have taken: "clients ?s1 requested = Some conn"
      using bound a by simp
    have rs: "requested_subdomain (snd (unmarshal_RegisterPayload
                (Payload (snd (unmarshal_ControlMessage msg))))) (name_uuid e2) = requested"
      using req ne by (simp add: requested_subdomain_def)
    have n2: "fst (handleWebSocket_handshake ?s1 r2 e2)
              = Some (requested @ ''-'' @ take 4 (suffix_uuid e2), conn2)"
      using handshake_registers(1) [OF up2 rd2 env ty, of ?s1 r2] rs taken
      by (simp add: bind_client_name)
    have b2: "clients (snd (handleWebSocket_handshake ?s1 r2 e2))
              = (clients ?s1)(requested @ ''-'' @ take 4 (suffix_uuid e2) \<mapsto> conn2)"
      using handshake_registers(2) [OF up2 rd2 env ty, of ?s1 r2] rs taken
      by (simp add: bind_client_clients bind_client_name)
    have distinct: "requested \<noteq> requested @ ''-'' @ take 4 (suffix_uuid e2)"
      by simp
    show ?thesis
      using a n2 b2 taken distinct by simp
  qed
  show ?thesis
    using name bound len8 len5 two by blast
qed


lemma example_server_clients: "clients example_server = Map.empty"
  by (simp add: example_server_def NewTunnelServer_def)

lemma example_env_fields:
  "upgrade (example_ws_env c m) = Some c"
  "first_read (example_ws_env c m) = Message m"
  "name_uuid (example_ws_env c m) = example_uuid"
  "suffix_uuid (example_ws_env c m) = example_uuid"
  by (simp_all add: example_ws_env_def)

lemma example_uuid_parts:
  "length example_uuid = 36" "take 8 example_uuid = ''abcd1234''"
  "take 4 example_uuid = ''abcd''"
  by (simp_all add: example_uuid_def)

lemma decoded_register_message:
  "fst (unmarshal_ControlMessage (register_message n)) = None"
  "Type (snd (unmarshal_ControlMessage (register_message n))) = TypeRegister"
  "reg_Subdomain (snd (unmarshal_RegisterPayload
      (Payload (snd (unmarshal_ControlMessage (register_message n)))))) = n"
  by (simp_all add: unmarshal_register_message unmarshal_subdomain_payload)

text \<open>
  Witness for C3: a registration without a name on the empty registry, and two
  registrations of \<open>demo\<close>.
\<close>

theorem registration_names_witness:
  "fst (handleWebSocket_handshake example_server
         (example_request ''server.publictunnel.com'' ''/ws'')
         (example_ws_env 1 (register_message []))) = Some (''abcd1234'', 1)
   \<and> length ''abcd1234'' = 8
   \<and> fst (handleWebSocket_handshake example_server
         (example_request ''server.publictunnel.com'' ''/ws'')
         (example_ws_env 1 (register_message ''demo''))) = Some (''demo'', 1)
   \<and> fst (handleWebSocket_handshake example_registered
         (example_request ''server.publictunnel.com'' ''/ws'')
         (example_ws_env 2 (register_message ''demo''))) = Some (''demo-abcd'', 2)
   \<and> length ''demo-abcd'' = length ''demo'' + 5
   \<and> clients (snd (handleWebSocket_handshake example_registered
         (example_request ''server.publictunnel.com'' ''/ws'')
         (example_ws_env 2 (register_message ''demo'')))) ''demo'' = Some 1
   \<and> clients (snd (handleWebSocket_handshake example_registered
         (example_request ''server.publictunnel.com'' ''/ws'')
         (example_ws_env 2 (register_message ''demo'')))) ''demo-abcd'' = Some 2"
proof -
  let ?r = "example_request ''server.publictunnel.com'' ''/ws''"
  have anon: "fst (handleWebSocket_handshake example_server ?r
         (example_ws_env 1 (register_message []))) = Some (''abcd1234'', 1)
       \<and> length ''abcd1234'' = 8"
    using registration_names [where e = "example_ws_env 1 (register_message [])"
        and conn = 1 and msg = "register_message []" and requested = "[]"
        and candidate = "''abcd1234''" and assigned = "''abcd1234''" and s = example_server
        and ?e2.0 = "example_ws_env 2 (register_message [])" and ?conn2.0 = 2
        and r = ?r and ?r2.0 = ?r]
    by (simp add: example_env_fields decoded_register_message example_uuid_parts
        example_server_clients)
  have two: "fst (handleWebSocket_handshake example_server ?r
         (example_ws_env 1 (register_message ''demo''))) = Some (''demo'', 1)
     \<and> fst (handleWebSocket_handshake example_registered ?r
         (example_ws_env 2 (register_message ''demo''))) = Some (''demo-abcd'', 2)
     \<and> clients (snd (handleWebSocket_handshake example_registered ?r
         (example_ws_env 2 (register_message ''demo'')))) ''demo'' = Some 1
     \<and> clients (snd (handleWebSocket_handshake example_registered ?r
         (example_ws_env 2 (register_message ''demo'')))) ''demo-abcd'' = Some 2"
    using registration_names [where e = "example_ws_env 1 (register_message ''demo'')"
        and conn = 1 and msg = "register_message ''demo''" and requested = "''demo''"
        and candidate = "''demo''" and assigned = "''demo''" and s = example_server
        and ?e2.0 = "example_ws_env 2 (register_message ''demo'')" and ?conn2.0 = 2
        and r = ?r and ?r2.0 = ?r]
    by (simp add: example_env_fields decoded_register_message example_uuid_parts
        example_server_clients example_registered_def)
  have taken: "length ''demo-abcd'' = length ''demo'' + 5"
    using registration_names [where e = "example_ws_env 2 (register_message ''demo'')"
        and conn = 2 and msg = "register_message ''demo''" and requested = "''demo''"
        and candidate = "''demo''" and assigned = "''demo-abcd''" and s = example_registered
        and ?e2.0 = "example_ws_env 3 (register_message ''demo'')" and ?conn2.0 = 3
        and r = ?r and ?r2.0 = ?r]
    by (simp add: example_env_fields decoded_register_message example_uuid_parts
        example_registered_clients)
  show ?thesis using anon two taken by blast
qed

lemma example_crowded_clients:
  "clients example_crowded = [''demo'' \<mapsto> 1, ''demo-abcd'' \<mapsto> 2]"
  using handshake_registers(2) [where e = "example_ws_env 2 (register_message ''demo-abcd'')"
      and conn = 2 and msg = "register_message ''demo-abcd''" and s = example_registered
      and r = "example_request ''server.publictunnel.com'' ''/ws''"]
  by (simp add: example_crowded_def example_env_fields decoded_register_message
      requested_subdomain_def bind_client_clients bind_client_name example_registered_clients)

text \<open>
  C3, as stated: the uniqueness check is retried on the suffixed name before it is bound.
  With \<open>demo\<close> and \<open>demo-abcd\<close> both bound, a third client that asks for \<open>demo\<close>
  and draws the suffix \<open>abcd\<close> is assigned \<open>demo-abcd\<close>, which takes the binding
  from the second client.
\<close>

theorem suffixed_name_not_rechecked_counterexample:
  "clients example_crowded ''demo'' = Some 1
   \<and> clients example_crowded ''demo-abcd'' = Some 2
   \<and> fst (handleWebSocket_handshake example_crowded
         (example_request ''server.publictunnel.com'' ''/ws'')
         (example_ws_env 3 (register_message ''demo''))) = Some (''demo-abcd'', 3)
   \<and> clients (snd (handleWebSocket_handshake example_crowded
         (example_request ''server.publictunnel.com'' ''/ws'')
         (example_ws_env 3 (register_message ''demo'')))) ''demo-abcd'' = Some 3"
  using handshake_registers [where e = "example_ws_env 3 (register_message ''demo'')"
      and conn = 3 and msg = "register_message ''demo''" and s = example_crowded
      and r = "example_request ''server.publictunnel.com'' ''/ws''"]
  by (simp add: example_env_fields decoded_register_message requested_subdomain_def
      bind_client_clients bind_client_name example_crowded_clients example_uuid_parts)


lemma unmarshal_malformed_register:
  "unmarshal_ControlMessage malformed_register
     = (None, \<lparr>Type = TypeRegister, Payload = JNumber (Some 42)\<rparr>)"
  by (simp add: malformed_register_def unmarshal_ControlMessage_def ctrl_member_def
      names_field_def string_field_def TypeRegister_def)

lemma unmarshal_RegisterPayload_mismatch:
  assumes "p \<noteq> JNull" and "\<forall>kvs. p \<noteq> JObject kvs"
  shows "unmarshal_RegisterPayload p = (Some UnmarshalTypeError, \<lparr>reg_Subdomain = []\<rparr>)"
  using assms by (cases p) (auto simp add: unmarshal_RegisterPayload_def)

lemma read_message_keeps_session:
  "fst (handleWebSocket_read dec s sub (Message m)) \<noteq> Closed"
  by (simp add: handleWebSocket_read_def deliver_def Let_def
      split: option.split send_result.split)

lemma unmarshal_mistyped_register:
  "unmarshal_ControlMessage mistyped_register
     = (None, \<lparr>Type = TypeRegister,
               Payload = JObject [(''subdomain'', JNumber (Some 123))]\<rparr>)"
  by code_simp

lemma unmarshal_mistyped_payload:
  "unmarshal_RegisterPayload (JObject [(''subdomain'', JNumber (Some 123))])
     = (Some UnmarshalTypeError, \<lparr>reg_Subdomain = []\<rparr>)"
  by code_simp

lemma unmarshal_half_decoded_register:
  "unmarshal_ControlMessage half_decoded_register
     = (None, \<lparr>Type = TypeRegister,
               Payload = JObject [(''Subdomain'', JString ''keep''),
                                  (''subdomain'', JNumber (Some 7))]\<rparr>)"
  by code_simp

lemma unmarshal_half_decoded_payload:
  "unmarshal_RegisterPayload
     (JObject [(''Subdomain'', JString ''keep''), (''subdomain'', JNumber (Some 7))])
     = (Some UnmarshalTypeError, \<lparr>reg_Subdomain = ''keep''\<rparr>)"
  by code_simp

text \<open>
  C4, amended. A first message that does not decode to a \<^verbatim>\<open>ControlMessage\<close>, or
  whose type is not \<^verbatim>\<open>REGISTER\<close>, ends the handshake with the state unchanged. A
  \<^verbatim>\<open>REGISTER\<close> message is accepted whatever its payload: the error of decoding the
  payload is dropped and the struct is used as far as it was filled. The client is
  registered by the rule for names, under the name that the decoding left in the struct,
  or under a name from a UUID when it left none; a payload that is neither an object nor
  \<open>null\<close> fails to decode and leaves none. After the handshake no message ends the read
  loop.
\<close>

theorem handshake_payload_errors_ignored:
  assumes up: "upgrade e = Some conn" and rd: "first_read e = Message msg"
    and p: "p = Payload (snd (unmarshal_ControlMessage msg))"
    and req: "requested = reg_Subdomain (snd (unmarshal_RegisterPayload p))"
    and cand: "candidate = (if requested = [] then take 8 (name_uuid e) else requested)"
    and asg: "assigned = (if clients s candidate = None then candidate
                          else candidate @ ''-'' @ take 4 (suffix_uuid e))"
  shows "(fst (unmarshal_ControlMessage msg) \<noteq> None
          \<or> Type (snd (unmarshal_ControlMessage msg)) \<noteq> TypeRegister \<longrightarrow>
            handleWebSocket_handshake s r e = (None, s))
     \<and> (fst (unmarshal_ControlMessage msg) = None
          \<and> Type (snd (unmarshal_ControlMessage msg)) = TypeRegister \<longrightarrow>
            fst (handleWebSocket_handshake s r e) = Some (assigned, conn)
            \<and> clients (snd (handleWebSocket_handshake s r e))
                = (clients s)(assigned \<mapsto> conn))
     \<and> (p \<noteq> JNull \<and> (\<forall>kvs. p \<noteq> JObject kvs) \<longrightarrow>
            fst (unmarshal_RegisterPayload p) = Some UnmarshalTypeError
            \<and> requested = [] \<and> candidate = take 8 (name_uuid e))
     \<and> fst (handleWebSocket_read dec s sub (Message m)) \<noteq> Closed"
proof -
  have rej: "handleWebSocket_handshake s r e = (None, s)"
    if "fst (unmarshal_ControlMessage msg) \<noteq> None
          \<or> Type (snd (unmarshal_ControlMessage msg)) \<noteq> TypeRegister"
    using up rd that by (rule handshake_rejects)
  have cand': "candidate = requested_subdomain (snd (unmarshal_RegisterPayload p)) (name_uuid e)"
    using req cand by (simp add: requested_subdomain_def)
  have acc: "fst (handleWebSocket_handshake s r e) = Some (assigned, conn)
            \<and> clients (snd (handleWebSocket_handshake s r e))
                = (clients s)(assigned \<mapsto> conn)"
    if h: "fst (unmarshal_ControlMessage msg) = None
          \<and> Type (snd (unmarshal_ControlMessage msg)) = TypeRegister"
  proof -
    from h have env: "fst (unmarshal_ControlMessage msg) = None"
      and ty: "Type (snd (unmarshal_ControlMessage msg)) = TypeRegister" by simp_all
    have n: "fst (handleWebSocket_handshake s r e) = Some (assigned, conn)"
      using handshake_registers(1) [OF up rd env ty, of s r] p cand' asg
      by (simp add: bind_client_name)
    have b: "clients (snd (handleWebSocket_handshake s r e)) = (clients s)(assigned \<mapsto> conn)"
      using handshake_registers(2) [OF up rd env ty, of s r] p cand' asg
      by (simp add: bind_client_clients bind_client_name)
    show ?thesis using n b by simp
  qed
  have mis: "fst (unmarshal_RegisterPayload p) = Some UnmarshalTypeError
            \<and> requested = [] \<and> candidate = take 8 (name_uuid e)"
    if m: "p \<noteq> JNull \<and> (\<forall>kvs. p \<noteq> JObject kvs)"
  proof -
    have u: "unmarshal_RegisterPayload p = (Some UnmarshalTypeError, \<lparr>reg_Subdomain = []\<rparr>)"
      using m by (simp add: unmarshal_RegisterPayload_mismatch)
    show ?thesis using req cand by (simp add: u)
  qed
  show ?thesis using rej acc mis read_message_keeps_session [of dec s sub m] by blast
qed

text \<open>
  Witness for C4: a first message that is no JSON text, and three \<^verbatim>\<open>REGISTER\<close>
  messages whose payloads fail to decode: the number 42, an object whose member
  \<open>subdomain\<close> is a number, both registered under a name from the UUID, and an object
  that fills the field before it fails, registered under the name that it filled in.
\<close>

theorem handshake_payload_errors_ignored_witness:
  "handleWebSocket_handshake example_server
       (example_request ''server.publictunnel.com'' ''/ws'') (example_ws_env 1 NotJSON)
     = (None, example_server)
   \<and> fst (unmarshal_RegisterPayload (Payload (snd (unmarshal_ControlMessage
         malformed_register)))) = Some UnmarshalTypeError
   \<and> fst (handleWebSocket_handshake example_server
       (example_request ''server.publictunnel.com'' ''/ws'')
       (example_ws_env 1 malformed_register)) = Some (''abcd1234'', 1)
   \<and> fst (unmarshal_RegisterPayload (Payload (snd (unmarshal_ControlMessage
         mistyped_register)))) = Some UnmarshalTypeError
   \<and> fst (handleWebSocket_handshake example_server
       (example_request ''server.publictunnel.com'' ''/ws'')
       (example_ws_env 1 mistyped_register)) = Some (''abcd1234'', 1)
   \<and> fst (unmarshal_RegisterPayload (Payload (snd (unmarshal_ControlMessage
         half_decoded_register)))) = Some UnmarshalTypeError
   \<and> fst (handleWebSocket_handshake example_server
       (example_request ''server.publictunnel.com'' ''/ws'')
       (example_ws_env 1 half_decoded_register)) = Some (''keep'', 1)
   \<and> clients (snd (handleWebSocket_handshake example_server
       (example_request ''server.publictunnel.com'' ''/ws'')
       (example_ws_env 1 half_decoded_register))) ''keep'' = Some 1"
proof -
  let ?r = "example_request ''server.publictunnel.com'' ''/ws''"
  have bad: "fst (unmarshal_ControlMessage NotJSON) \<noteq> None"
    by (simp add: unmarshal_ControlMessage_def)
  have a: "handleWebSocket_handshake example_server ?r (example_ws_env 1 NotJSON)
     = (None, example_server)"
    using handshake_payload_errors_ignored [where e = "example_ws_env 1 NotJSON"
        and conn = 1 and msg = NotJSON and s = example_server and r = ?r
        and p = JNull and requested = "[]" and candidate = "''abcd1234''"
        and assigned = "''abcd1234''"
        and dec = example_decoder and sub = "''demo''" and m = NotJSON] bad
    by (simp add: example_env_fields example_server_clients example_uuid_parts
        unmarshal_ControlMessage_def unmarshal_RegisterPayload_def)
  have b: "fst (unmarshal_RegisterPayload (JNumber (Some 42))) = Some UnmarshalTypeError
     \<and> fst (handleWebSocket_handshake example_server ?r
       (example_ws_env 1 malformed_register)) = Some (''abcd1234'', 1)"
    using handshake_payload_errors_ignored [where e = "example_ws_env 1 malformed_register"
        and conn = 1 and msg = malformed_register and s = example_server and r = ?r
        and p = "JNumber (Some 42)" and requested = "[]" and candidate = "''abcd1234''"
        and assigned = "''abcd1234''"
        and dec = example_decoder and sub = "''demo''" and m = NotJSON]
    by (simp add: example_env_fields unmarshal_malformed_register example_uuid_parts
        example_server_clients unmarshal_RegisterPayload_def)
  have c: "fst (handleWebSocket_handshake example_server ?r
       (example_ws_env 1 mistyped_register)) = Some (''abcd1234'', 1)"
    using handshake_payload_errors_ignored [where e = "example_ws_env 1 mistyped_register"
        and conn = 1 and msg = mistyped_register and s = example_server and r = ?r
        and p = "JObject [(''subdomain'', JNumber (Some 123))]"
        and requested = "[]" and candidate = "''abcd1234''" and assigned = "''abcd1234''"
        and dec = example_decoder and sub = "''demo''" and m = NotJSON]
    by (simp add: example_env_fields unmarshal_mistyped_register unmarshal_mistyped_payload
        example_uuid_parts example_server_clients)
  have d: "fst (handleWebSocket_handshake example_server ?r
       (example_ws_env 1 half_decoded_register)) = Some (''keep'', 1)
     \<and> clients (snd (handleWebSocket_handshake example_server ?r
       (example_ws_env 1 half_decoded_register))) ''keep'' = Some 1"
    using handshake_payload_errors_ignored [where e = "example_ws_env 1 half_decoded_register"
        and conn = 1 and msg = half_decoded_register and s = example_server and r = ?r
        and p = "JObject [(''Subdomain'', JString ''keep''), (''subdomain'', JNumber (Some 7))]"
        and requested = "''keep''" and candidate = "''keep''" and assigned = "''keep''"
        and dec = example_decoder and sub = "''demo''" and m = NotJSON]
    by (simp add: example_env_fields unmarshal_half_decoded_register
        unmarshal_half_decoded_payload example_server_clients)
  show ?thesis
    using a b c d
    by (simp add: unmarshal_malformed_register unmarshal_mistyped_register
        unmarshal_mistyped_payload unmarshal_half_decoded_register
        unmarshal_half_decoded_payload)
qed

text \<open>
  C4, as stated: a \<^verbatim>\<open>REGISTER\<close> message whose payload does not decode to a
  \<^verbatim>\<open>RegisterPayload\<close> never completes a registration. The message with the payload
  42 has a payload that fails to decode, and the client is registered as \<open>abcd1234\<close>.
\<close>

theorem undecodable_register_accepted_counterexample:
  "fst (unmarshal_ControlMessage malformed_register) = None
   \<and> Type (snd (unmarshal_ControlMessage malformed_register)) = TypeRegister
   \<and> fst (unmarshal_RegisterPayload
        (Payload (snd (unmarshal_ControlMessage malformed_register))))
       = Some UnmarshalTypeError
   \<and> fst (handleWebSocket_handshake example_server
       (example_request ''server.publictunnel.com'' ''/ws'')
       (example_ws_env 1 malformed_register)) = Some (''abcd1234'', 1)
   \<and> clients (snd (handleWebSocket_handshake example_server
       (example_request ''server.publictunnel.com'' ''/ws'')
       (example_ws_env 1 malformed_register))) ''abcd1234'' = Some 1"
  using handshake_registers [where e = "example_ws_env 1 malformed_register"
      and conn = 1 and msg = malformed_register and s = example_server
      and r = "example_request ''server.publictunnel.com'' ''/ws''"]
  by (simp add: example_env_fields unmarshal_malformed_register unmarshal_RegisterPayload_def
      requested_subdomain_def bind_client_name bind_client_clients example_uuid_parts
      example_server_clients)

subsection \<open>The task of the client\<close>


lemma client_handleRequest_unbuilt:
  assumes "http_NewRequest env (req_Method req)
             (''http://localhost:'' @ Sprintf_d (LocalPort c) @ req_Path req) (req_Body req)
           = Inl err"
  shows "client_handleRequest c env req = []"
  using assms by (simp add: client_handleRequest_def Let_def)

lemma client_Start_read_request:
  assumes "fst (unmarshal_ControlMessage msg) = None"
    and "Type (snd (unmarshal_ControlMessage msg)) = TypeHttpRequest"
  shows "client_Start_read c dec env (Message msg)
           = Continue (client_handleRequest c env (dec (Payload (snd (unmarshal_ControlMessage msg)))))"
  using assms
  by (simp add: client_Start_read_def Let_def TypeHttpRequest_def TypeRegisterResp_def)


text \<open>
  C10. When \<^verbatim>\<open>http.NewRequest\<close> fails for a relayed request, the task of the client
  returns without writing a message. A call of \<^verbatim>\<open>proxyToClient\<close> whose write
  succeeded and which, while it waits, gets what this task wrote, that is nothing, answers
  with \<^verbatim>\<open>http.Error(w, "Gateway timeout", 504)\<close> when the timer of 30 seconds fires,
  and its slot is removed.
\<close>

theorem invalid_local_request_times_out:
  assumes nr: "http_NewRequest env (req_Method req)
             (''http://localhost:'' @ Sprintf_d (LocalPort c) @ req_Path req) (req_Body req)
           = Inl err"
    and found: "clients s subdomain = Some conn"
    and ok: "write_err e = None"
    and fresh: "response_chan e \<notin> ran (pendingReqs s)"
    and only: "inbound e = map enc (client_handleRequest c env req)"
  shows "client_handleRequest c env req = []
     \<and> (fst (unmarshal_ControlMessage msg) = None
          \<and> Type (snd (unmarshal_ControlMessage msg)) = TypeHttpRequest
          \<and> cdec (Payload (snd (unmarshal_ControlMessage msg))) = req \<longrightarrow>
            client_Start_read c cdec env (Message msg) = Continue [])
     \<and> reply (proxyToClient dec s subdomain r e)
          = [http_Error ''Gateway timeout'' http_StatusGatewayTimeout]
     \<and> waited (proxyToClient dec s subdomain r e) = Some (TimedOut (30 * Second))
     \<and> pendingReqs (state (proxyToClient dec s subdomain r e)) (request_uuid e) = None
     \<and> http_StatusGatewayTimeout = 504"
proof -
  have none: "client_handleRequest c env req = []"
    using nr by (rule client_handleRequest_unbuilt)
  have f: "client_Start_read c cdec env (Message msg) = Continue []"
    if "fst (unmarshal_ControlMessage msg) = None
          \<and> Type (snd (unmarshal_ControlMessage msg)) = TypeHttpRequest
          \<and> cdec (Payload (snd (unmarshal_ControlMessage msg))) = req"
    using that client_Start_read_request [of msg c cdec env] none by simp
  have silent: "list_all (\<lambda>m. \<not> answers dec (request_uuid e) m) (inbound e)"
    using only none by simp
  have t: "reply (proxyToClient dec s subdomain r e)
          = [http_Error ''Gateway timeout'' http_StatusGatewayTimeout]
     \<and> waited (proxyToClient dec s subdomain r e) = Some (TimedOut (30 * Second))"
    using found ok fresh silent by (rule proxyToClient_timeout)
  have rel: "pendingReqs (state (proxyToClient dec s subdomain r e)) (request_uuid e) = None"
    by (simp add: proxyToClient_pendingReqs [OF found])
  have d: "http_StatusGatewayTimeout = 504"
    by (simp add: http_StatusGatewayTimeout_def)
  show ?thesis using none f t rel d by blast
qed



lemma invalidMethod_space: "\<not> validMethod ''BAD METHOD''"
  by (simp add: validMethod_def is_token_byte_def)


lemma NewRequest_BAD:
  "http_NewRequest env ''BAD METHOD'' u b = Inl (InvalidMethod ''BAD METHOD'')"
  by (simp add: http_NewRequest_def invalidMethod_space)

lemma unmarshal_relayed_message:
  "fst (unmarshal_ControlMessage (relayed_message m)) = None"
  "Type (snd (unmarshal_ControlMessage (relayed_message m))) = TypeHttpRequest"
  by (simp_all add: relayed_message_def unmarshal_ControlMessage_def ctrl_member_def
      names_field_def string_field_def TypeHttpRequest_def)


text \<open>
  Witness for C10: a relayed request with the method \<open>BAD METHOD\<close>, which is no token.
\<close>

theorem invalid_local_request_times_out_witness:
  "client_handleRequest example_client example_local_up (example_relayed ''BAD METHOD'') = []
   \<and> client_Start_read example_client (\<lambda>p. example_relayed ''BAD METHOD'') example_local_up
        (Message (relayed_message ''BAD METHOD'')) = Continue []
   \<and> reply (proxyToClient example_decoder example_registered ''demo''
        (example_request ''demo.publictunnel.com'' ''/health'') (example_proxy_env None []))
      = [http_Error ''Gateway timeout'' http_StatusGatewayTimeout]
   \<and> waited (proxyToClient example_decoder example_registered ''demo''
        (example_request ''demo.publictunnel.com'' ''/health'') (example_proxy_env None []))
      = Some (TimedOut (30 * Second))"
proof -
  have nr: "http_NewRequest example_local_up (req_Method (example_relayed ''BAD METHOD''))
             (''http://localhost:'' @ Sprintf_d (LocalPort example_client)
                @ req_Path (example_relayed ''BAD METHOD''))
             (req_Body (example_relayed ''BAD METHOD''))
           = Inl (InvalidMethod ''BAD METHOD'')"
    by (simp add: example_relayed_def NewRequest_BAD)
  have found: "clients example_registered ''demo'' = Some 1"
    by (simp add: example_registered_clients)
  have ok: "write_err (example_proxy_env None []) = None"
    by (simp add: example_proxy_env_def)
  have fresh: "response_chan (example_proxy_env None []) \<notin> ran (pendingReqs example_registered)"
    by (simp add: example_registered_pendingReqs)
  have only: "inbound (example_proxy_env None [])
      = map (\<lambda>m. NotJSON) (client_handleRequest example_client example_local_up
          (example_relayed ''BAD METHOD''))"
    by (simp add: example_proxy_env_def client_handleRequest_unbuilt [OF nr])
  show ?thesis
    using invalid_local_request_times_out [OF nr found ok fresh only,
        where msg = "relayed_message ''BAD METHOD''"
        and cdec = "\<lambda>p. example_relayed ''BAD METHOD''" and dec = example_decoder
        and r = "example_request ''demo.publictunnel.com'' ''/health''"]
    by (simp add: unmarshal_relayed_message)
qed

end
